theory Spec2Isabelle
  imports Main "HOL-Library.Sublist" "HOL-Library.Word"
begin

unbundle bit_operations_syntax

section \<open>Strings\<close>

text \<open>
  Python text is modelled as \<^typ>\<open>string\<close>, one \<^typ>\<open>char\<close> per character, so the
  case mapping below is the ASCII one: \<open>str.lower\<close> and \<open>re.IGNORECASE\<close> agree with it on
  ASCII text, which is what package archive names are made of.
\<close>

definition upper_letters :: string where
  "upper_letters = ''ABCDEFGHIJKLMNOPQRSTUVWXYZ''"

definition lower_letters :: string where
  "lower_letters = ''abcdefghijklmnopqrstuvwxyz''"

definition lower_char :: "char \<Rightarrow> char" where
  "lower_char c = (case map_of (zip upper_letters lower_letters) c of Some l \<Rightarrow> l | None \<Rightarrow> c)"

definition lower :: "string \<Rightarrow> string" where
  "lower s = map lower_char s"

text \<open>\<open>sub in s\<close> on Python strings: \<open>sub\<close> occurs in \<open>s\<close> as a contiguous run.\<close>

fun str_contains :: "string \<Rightarrow> string \<Rightarrow> bool" where
  "str_contains sub [] = (sub = [])"
| "str_contains sub (c # s) = (prefix sub (c # s) \<or> str_contains sub s)"

text \<open>\<open>s.replace(c, r)\<close> for a single character \<open>c\<close>.\<close>

definition replace_char :: "char \<Rightarrow> string \<Rightarrow> string \<Rightarrow> string" where
  "replace_char c r s = concat (map (\<lambda>x. if x = c then r else [x]) s)"

section \<open>The blacklist matcher\<close>

subsection \<open>Regular expressions produced from wildcard patterns\<close>

text \<open>
  \<open>is_blacklisted\<close> turns a pattern with a \<open>*\<close> into a regular expression and hands it to
  \<open>re.search(regex, filename, re.IGNORECASE)\<close>. A pattern made of ordinary characters,
  \<open>.\<close> and \<open>*\<close> gives a regular expression made of literal characters, \<open>\.\<close> and \<open>.*\<close>;
  that fragment is interpreted here. Any other regular expression (the pattern held another
  metacharacter of \<open>re\<close>) is left to the parameter \<open>ext\<close>, which stands for what \<open>re.search\<close>
  answers on it: \<open>Some b\<close> for found or not found, \<open>None\<close> when \<open>re\<close> raises.
\<close>

datatype re_item = Lit char | AnyStar

definition backslash :: char where
  "backslash = CHR 0x5C"

definition newline :: char where
  "newline = CHR 0x0A"

definition re_meta :: "char set" where
  "re_meta = set ''.^$*+?{}[]|()'' \<union> {backslash}"

fun re_parse :: "string \<Rightarrow> re_item list option" where
  "re_parse [] = Some []"
| "re_parse [c] = (if c \<in> re_meta then None else Some [Lit c])"
| "re_parse (c # d # r) =
     (if c = backslash \<and> d = CHR ''.'' then map_option (Cons (Lit d)) (re_parse r)
      else if c = CHR ''.'' \<and> d = CHR ''*'' then map_option (Cons AnyStar) (re_parse r)
      else if c \<in> re_meta then None
      else map_option (Cons (Lit c)) (re_parse (d # r)))"

text \<open>
  A match of the items starting at the head of the text. \<open>.\<close> matches any character but
  a newline; literals compare without regard to case.
\<close>

fun re_match_here :: "re_item list \<Rightarrow> string \<Rightarrow> bool" where
  "re_match_here [] s = True"
| "re_match_here (Lit c # r) [] = False"
| "re_match_here (Lit c # r) (x # s) = (lower_char c = lower_char x \<and> re_match_here r s)"
| "re_match_here (AnyStar # r) [] = re_match_here r []"
| "re_match_here (AnyStar # r) (x # s) =
     (re_match_here r (x # s) \<or> (x \<noteq> newline \<and> re_match_here (AnyStar # r) s))"

text \<open>\<open>re.search\<close>: a match starting at any position of the text.\<close>

fun re_search_items :: "re_item list \<Rightarrow> string \<Rightarrow> bool" where
  "re_search_items r [] = re_match_here r []"
| "re_search_items r (x # s) = (re_match_here r (x # s) \<or> re_search_items r s)"

definition re_search :: "(string \<Rightarrow> string \<Rightarrow> bool option) \<Rightarrow> string \<Rightarrow> string \<Rightarrow> bool option" where
  "re_search ext regex s =
     (case re_parse regex of
        Some items \<Rightarrow> Some (re_search_items items s)
      | None \<Rightarrow> ext regex s)"

text \<open>An \<open>ext\<close> for closed examples: \<open>re\<close> rejects every expression outside the fragment.\<close>

definition re_rejects :: "string \<Rightarrow> string \<Rightarrow> bool option" where
  "re_rejects regex s = None"

subsection \<open>\<open>is_blacklisted\<close>, \<open>add_blacklist_pattern\<close>, \<open>remove_blacklist_pattern\<close>\<close>

text \<open>
  \<open>BLACKLIST_PATTERNS\<close> is the list passed as \<open>pats\<close>. The loop returns at the first
  pattern that matches; an exception while handling one pattern is swallowed and the loop
  goes on with the next one.
\<close>

definition pattern_regex :: "string \<Rightarrow> string" where
  "pattern_regex pattern =
     replace_char (CHR ''*'') ''.*'' (replace_char (CHR ''.'') [backslash, CHR ''.''] pattern)"

fun is_blacklisted :: "(string \<Rightarrow> string \<Rightarrow> bool option) \<Rightarrow> string list \<Rightarrow> string \<Rightarrow> bool" where
  "is_blacklisted ext [] filename = False"
| "is_blacklisted ext (pattern # pats) filename =
     (if CHR ''*'' \<in> set pattern then
        (case re_search ext (pattern_regex pattern) filename of
           Some True \<Rightarrow> True
         | _ \<Rightarrow> is_blacklisted ext pats filename)
      else if str_contains (lower pattern) (lower filename) then True
      else is_blacklisted ext pats filename)"

text \<open>
  The two mutators first write to the database; \<open>db_ok\<close> says whether that went through.
  When it raises, the in-memory list is not touched and the result is \<open>False\<close>.
\<close>

definition add_blacklist_pattern :: "bool \<Rightarrow> string \<Rightarrow> string list \<Rightarrow> bool \<times> string list" where
  "add_blacklist_pattern db_ok pattern pats =
     (if db_ok then (True, if pattern \<notin> set pats then pats @ [pattern] else pats)
      else (False, pats))"

definition remove_blacklist_pattern :: "bool \<Rightarrow> string \<Rightarrow> string list \<Rightarrow> bool \<times> string list" where
  "remove_blacklist_pattern db_ok pattern pats =
     (if db_ok then (True, if pattern \<in> set pats then remove1 pattern pats else pats)
      else (False, pats))"

section \<open>MD5\<close>

text \<open>
  \<open>hashlib.md5(path.encode()).hexdigest()\<close>: the digest of RFC 1321 over the bytes of the
  text, printed as 32 lower-case hexadecimal digits.
\<close>

definition md5_shifts :: "nat list" where
  "md5_shifts = concat (map (\<lambda>r. concat (replicate 4 r))
     [[7, 12, 17, 22], [5, 9, 14, 20], [4, 11, 16, 23], [6, 10, 15, 21]])"

definition md5_consts :: "32 word list" where
  "md5_consts =
    [0xd76aa478, 0xe8c7b756, 0x242070db, 0xc1bdceee, 0xf57c0faf, 0x4787c62a, 0xa8304613, 0xfd469501,
     0x698098d8, 0x8b44f7af, 0xffff5bb1, 0x895cd7be, 0x6b901122, 0xfd987193, 0xa679438e, 0x49b40821,
     0xf61e2562, 0xc040b340, 0x265e5a51, 0xe9b6c7aa, 0xd62f105d, 0x02441453, 0xd8a1e681, 0xe7d3fbc8,
     0x21e1cde6, 0xc33707d6, 0xf4d50d87, 0x455a14ed, 0xa9e3e905, 0xfcefa3f8, 0x676f02d9, 0x8d2a4c8a,
     0xfffa3942, 0x8771f681, 0x6d9d6122, 0xfde5380c, 0xa4beea44, 0x4bdecfa9, 0xf6bb4b60, 0xbebfbc70,
     0x289b7ec6, 0xeaa127fa, 0xd4ef3085, 0x04881d05, 0xd9d4d039, 0xe6db99e5, 0x1fa27cf8, 0xc4ac5665,
     0xf4292244, 0x432aff97, 0xab9423a7, 0xfc93a039, 0x655b59c3, 0x8f0ccc92, 0xffeff47d, 0x85845dd1,
     0x6fa87e4f, 0xfe2ce6e0, 0xa3014314, 0x4e0811a1, 0xf7537e82, 0xbd3af235, 0x2ad7d2bb, 0xeb86d391]"

type_synonym md5_state = "32 word \<times> 32 word \<times> 32 word \<times> 32 word"

text \<open>The \<open>k\<close> low bytes of \<open>n\<close>, least significant first.\<close>

definition le_bytes :: "nat \<Rightarrow> nat \<Rightarrow> nat list" where
  "le_bytes k n = map (\<lambda>i. (n div 256 ^ i) mod 256) [0..<k]"

definition md5_pad :: "nat list \<Rightarrow> nat list" where
  "md5_pad msg =
     msg @ [128] @ replicate ((119 - length msg mod 64) mod 64) 0
       @ le_bytes 8 ((8 * length msg) mod 2 ^ 64)"

fun chunks_of :: "nat \<Rightarrow> 'a list \<Rightarrow> 'a list list" where
  "chunks_of n xs = (if n = 0 \<or> xs = [] then [] else take n xs # chunks_of n (drop n xs))"

declare chunks_of.simps [simp del]

definition le_word :: "nat list \<Rightarrow> 32 word" where
  "le_word bs = of_nat (foldr (\<lambda>b acc. b + 256 * acc) bs 0)"

definition md5_round :: "32 word list \<Rightarrow> md5_state \<Rightarrow> nat \<Rightarrow> md5_state" where
  "md5_round m st i =
     (case st of (a, b, c, d) \<Rightarrow>
        let (f, g) =
              (if i < 16 then ((b AND c) OR (NOT b AND d), i)
               else if i < 32 then ((d AND b) OR (NOT d AND c), (5 * i + 1) mod 16)
               else if i < 48 then (b XOR c XOR d, (3 * i + 5) mod 16)
               else (c XOR (b OR NOT d), (7 * i) mod 16));
            f' = f + a + md5_consts ! i + m ! g
        in (d, b + word_rotl (md5_shifts ! i) f', b, c))"

definition md5_block :: "md5_state \<Rightarrow> nat list \<Rightarrow> md5_state" where
  "md5_block st block =
     (case st of (a0, b0, c0, d0) \<Rightarrow>
        case foldl (md5_round (map le_word (chunks_of 4 block))) st [0..<64] of
          (a, b, c, d) \<Rightarrow> (a0 + a, b0 + b, c0 + c, d0 + d))"

definition md5_init :: md5_state where
  "md5_init = (0x67452301, 0xefcdab89, 0x98badcfe, 0x10325476)"

definition md5_digest :: "nat list \<Rightarrow> nat list" where
  "md5_digest msg =
     (case foldl md5_block md5_init (chunks_of 64 (md5_pad msg)) of
        (a, b, c, d) \<Rightarrow> concat (map (\<lambda>w. le_bytes 4 (unat w)) [a, b, c, d]))"

definition hex_digits :: string where
  "hex_digits = ''0123456789abcdef''"

definition hex_digit :: "nat \<Rightarrow> char" where
  "hex_digit n = hex_digits ! (n mod 16)"

definition hex_byte :: "nat \<Rightarrow> string" where
  "hex_byte b = [hex_digit (b div 16), hex_digit b]"

definition md5_hex :: "string \<Rightarrow> string" where
  "md5_hex s = concat (map hex_byte (md5_digest (map of_char s)))"

section \<open>Paths\<close>

text \<open>
  A \<open>pathlib\<close> path on POSIX: the root (\<open>/\<close>, \<open>//\<close> or none) and the segments. Parsing
  drops empty segments and \<open>.\<close>, keeps \<open>..\<close>, and keeps a root of exactly two slashes.
\<close>

datatype path = Path (anchor: string) (segs: "string list")

text \<open>\<open>s.split(c)\<close>.\<close>

fun split_char :: "char \<Rightarrow> string \<Rightarrow> string list" where
  "split_char c [] = [[]]"
| "split_char c (x # s) =
     (if x = c then [] # split_char c s
      else (case split_char c s of [] \<Rightarrow> [[x]] | h # t \<Rightarrow> (x # h) # t))"

definition path_root :: "string \<Rightarrow> string" where
  "path_root s =
     (if take 2 s = ''//'' \<and> take 3 s \<noteq> ''///'' then ''//''
      else if take 1 s = ''/'' then ''/''
      else [])"

definition parse_path :: "string \<Rightarrow> path" where
  "parse_path s = Path (path_root s) (filter (\<lambda>x. x \<noteq> [] \<and> x \<noteq> ''.'') (split_char (CHR ''/'') s))"

fun join_with :: "string \<Rightarrow> string list \<Rightarrow> string" where
  "join_with sep [] = []"
| "join_with sep [x] = x"
| "join_with sep (x # y # r) = x @ sep @ join_with sep (y # r)"

text \<open>\<open>str(p)\<close>.\<close>

definition path_str :: "path \<Rightarrow> string" where
  "path_str p =
     (if anchor p = [] \<and> segs p = [] then ''.'' else anchor p @ join_with ''/'' (segs p))"

text \<open>\<open>p / s\<close>: an absolute right operand replaces the left one.\<close>

definition joinpath :: "path \<Rightarrow> string \<Rightarrow> path" where
  "joinpath p s =
     (let q = parse_path s
      in if anchor q \<noteq> [] then q else Path (anchor p) (segs p @ segs q))"

text \<open>\<open>p.name\<close>.\<close>

definition path_name :: "path \<Rightarrow> string" where
  "path_name p = (if segs p = [] then [] else last (segs p))"

text \<open>
  \<open>p.suffix\<close> on a name: from the last dot on, when that dot is neither the first nor the
  last character of the name.
\<close>

definition name_suffix :: "string \<Rightarrow> string" where
  "name_suffix nm =
     (let ext = rev (takeWhile (\<lambda>c. c \<noteq> CHR ''.'') (rev nm))
      in if CHR ''.'' \<in> set nm \<and> ext \<noteq> [] \<and> length ext + 1 < length nm
         then CHR ''.'' # ext else [])"

datatype py_exc = Exception string | GeneratorExit

text \<open>
  \<open>p.with_suffix(suf)\<close> for a well-formed \<open>suf\<close>: the old suffix of the name is
  replaced, or the new one appended when the name has none. A path with no name raises.
\<close>

definition with_suffix :: "path \<Rightarrow> string \<Rightarrow> py_exc + path" where
  "with_suffix p suf =
     (let nm = path_name p
      in if nm = [] then Inl (Exception ''ValueError'')
         else Inr (Path (anchor p)
                (butlast (segs p) @ [take (length nm - length (name_suffix nm)) nm @ suf])))"

text \<open>\<open>os.path.basename\<close>: what follows the last slash.\<close>

definition basename :: "string \<Rightarrow> string" where
  "basename s = rev (takeWhile (\<lambda>c. c \<noteq> CHR ''/'') (rev s))"

text \<open>\<open>os.path.join(a, b)\<close>.\<close>

definition os_path_join :: "string \<Rightarrow> string \<Rightarrow> string" where
  "os_path_join a b =
     (if take 1 b = ''/'' then b
      else if a = [] \<or> last a = CHR ''/'' then a @ b
      else a @ ''/'' @ b)"

section \<open>The file system\<close>

text \<open>
  A tree without symbolic links: \<open>nodes\<close> maps the absolute location of every entry (its
  segments below the root directory, which always exists) to a directory or to a file with
  its bytes. \<open>stats\<close> says what \<open>os.stat\<close> answers at the location of an entry: the
  error it raises (as when the entry went away after \<open>exists()\<close> saw it), or the result
  with its time stamps, seconds since the epoch counted in microseconds, the resolution of
  \<open>datetime\<close>; \<open>st_atime\<close> is \<open>None\<close> when the result has no such attribute. The model
  does not follow how reads and writes move the time stamps. \<open>journal\<close> lists the calls
  that changed the tree or went to an open file, oldest first: it is what lets a property
  say which file was opened, written and renamed. The bytes of a file are those written
  to it; which of them have left the buffer while the file is open is not modelled.
\<close>

datatype node = Dir | File string

record stat =
  st_atime :: "int option"
  st_mtime :: int

datatype fs_op =
    OpMkdir "string list"
  | OpOpen "string list"
  | OpWrite "string list" string
  | OpClose "string list"
  | OpRename "string list" "string list"
  | OpUnlink "string list"

record filesystem =
  cwd :: "string list"
  nodes :: "string list \<rightharpoonup> node"
  stats :: "string list \<Rightarrow> py_exc + stat"
  journal :: "fs_op list"

definition node_at :: "(string list \<rightharpoonup> node) \<Rightarrow> string list \<Rightarrow> node option" where
  "node_at ns q = (if q = [] then Some Dir else ns q)"

text \<open>
  The kernel's path walk: every segment is looked up in a directory, \<open>..\<close> steps to the
  parent. The result is the location the path names, which may or may not hold an entry;
  \<open>None\<close> when the walk has to pass through something that is not a directory.
\<close>

fun walk :: "(string list \<rightharpoonup> node) \<Rightarrow> string list \<Rightarrow> string list \<Rightarrow> string list option" where
  "walk ns cur [] = Some cur"
| "walk ns cur (s # ss) =
     (if node_at ns cur = Some Dir
      then (if s = ''..'' then walk ns (butlast cur) ss else walk ns (cur @ [s]) ss)
      else None)"

definition locate :: "filesystem \<Rightarrow> path \<Rightarrow> string list option" where
  "locate fs p = walk (nodes fs) (if anchor p = [] then cwd fs else []) (segs p)"

definition path_exists :: "filesystem \<Rightarrow> path \<Rightarrow> bool" where
  "path_exists fs p =
     (case locate fs p of None \<Rightarrow> False | Some q \<Rightarrow> node_at (nodes fs) q \<noteq> None)"

text \<open>\<open>p.resolve()\<close> where nothing is a symbolic link: \<open>..\<close> is folded away.\<close>

fun collapse :: "string list \<Rightarrow> string list \<Rightarrow> string list" where
  "collapse cur [] = cur"
| "collapse cur (s # ss) = (if s = ''..'' then collapse (butlast cur) ss else collapse (cur @ [s]) ss)"

definition resolve :: "filesystem \<Rightarrow> path \<Rightarrow> path" where
  "resolve fs p = Path ''/'' (collapse (if anchor p = [] then cwd fs else []) (segs p))"

text \<open>\<open>p.unlink()\<close>.\<close>

definition unlink :: "filesystem \<Rightarrow> path \<Rightarrow> py_exc + filesystem" where
  "unlink fs p =
     (case locate fs p of
        None \<Rightarrow> Inl (Exception ''OSError'')
      | Some q \<Rightarrow>
          (case node_at (nodes fs) q of
             Some (File b) \<Rightarrow>
               Inr (fs\<lparr>nodes := (nodes fs)(q := None), journal := journal fs @ [OpUnlink q]\<rparr>)
           | _ \<Rightarrow> Inl (Exception ''OSError'')))"

text \<open>
  \<open>p.mkdir(parents=True, exist_ok=True)\<close>: the missing directories along the path are
  created; a file in the way raises, and what was created before it stays.
\<close>

fun mkdirs ::
  "(string list \<rightharpoonup> node) \<Rightarrow> string list \<Rightarrow> string list \<Rightarrow> fs_op list \<Rightarrow>
   py_exc option \<times> (string list \<rightharpoonup> node) \<times> fs_op list"
where
  "mkdirs ns cur [] j = (None, ns, j)"
| "mkdirs ns cur (s # ss) j =
     (if s = ''..'' then mkdirs ns (butlast cur) ss j
      else (case ns (cur @ [s]) of
              None \<Rightarrow> mkdirs (ns(cur @ [s] \<mapsto> Dir)) (cur @ [s]) ss (j @ [OpMkdir (cur @ [s])])
            | Some Dir \<Rightarrow> mkdirs ns (cur @ [s]) ss j
            | Some (File b) \<Rightarrow> (Some (Exception ''OSError''), ns, j)))"

definition mkdir_parents :: "filesystem \<Rightarrow> path \<Rightarrow> py_exc option \<times> filesystem" where
  "mkdir_parents fs p =
     (case mkdirs (nodes fs) (if anchor p = [] then cwd fs else []) (segs p) (journal fs) of
        (e, ns, j) \<Rightarrow> (e, fs\<lparr>nodes := ns, journal := j\<rparr>))"

text \<open>\<open>open(p, 'wb')\<close>: the file is created or emptied; the result is where it lives.\<close>

definition open_wb :: "filesystem \<Rightarrow> path \<Rightarrow> py_exc + (string list \<times> filesystem)" where
  "open_wb fs p =
     (case locate fs p of
        None \<Rightarrow> Inl (Exception ''OSError'')
      | Some q \<Rightarrow>
          (if node_at (nodes fs) q = Some Dir then Inl (Exception ''OSError'')
           else Inr (q, fs\<lparr>nodes := (nodes fs)(q \<mapsto> File []), journal := journal fs @ [OpOpen q]\<rparr>)))"

text \<open>\<open>f.write(chunk)\<close> on the file opened at \<open>q\<close>.\<close>

definition append_bytes :: "filesystem \<Rightarrow> string list \<Rightarrow> string \<Rightarrow> filesystem" where
  "append_bytes fs q chunk =
     fs\<lparr>nodes := (nodes fs)(q \<mapsto> File ((case nodes fs q of Some (File b) \<Rightarrow> b | _ \<Rightarrow> []) @ chunk)),
        journal := journal fs @ [OpWrite q chunk]\<rparr>"

text \<open>Leaving the \<open>with\<close> block closes the file.\<close>

definition close_file :: "filesystem \<Rightarrow> string list \<Rightarrow> filesystem" where
  "close_file fs q = fs\<lparr>journal := journal fs @ [OpClose q]\<rparr>"

text \<open>\<open>src.rename(dst)\<close>: a file replaces whatever file is at \<open>dst\<close>.\<close>

definition rename :: "filesystem \<Rightarrow> path \<Rightarrow> path \<Rightarrow> py_exc + filesystem" where
  "rename fs src dst =
     (case (locate fs src, locate fs dst) of
        (Some q, Some q') \<Rightarrow>
          (case (node_at (nodes fs) q, node_at (nodes fs) q') of
             (Some (File b), Some Dir) \<Rightarrow> Inl (Exception ''OSError'')
           | (Some (File b), _) \<Rightarrow>
               Inr (fs\<lparr>nodes := ((nodes fs)(q := None))(q' \<mapsto> File b),
                       journal := journal fs @ [OpRename q q']\<rparr>)
           | _ \<Rightarrow> Inl (Exception ''OSError''))
      | _ \<Rightarrow> Inl (Exception ''OSError''))"

section \<open>Configuration and process state\<close>

text \<open>
  The keys of \<open>CONFIG\<close> the cache manager reads; \<open>None\<close> is a key that is not set, for
  which \<open>get_config\<close> answers its default.
\<close>

record config =
  storage_path_resolved :: "string option"
  cache_days :: "int option"
  cache_retention_enabled :: "bool option"

definition get_config :: "'a option \<Rightarrow> 'a \<Rightarrow> 'a" where
  "get_config v dflt = (case v of None \<Rightarrow> dflt | Some x \<Rightarrow> x)"

text \<open>
  \<open>LOG_BUFFER\<close> holds the last \<open>MAX_LOG_BUFFER\<close> entries, here without their clock time:
  the level and the message.
\<close>

definition MAX_LOG_BUFFER :: nat where
  "MAX_LOG_BUFFER = 100"

definition add_log :: "string \<Rightarrow> string \<Rightarrow> (string \<times> string) list \<Rightarrow> (string \<times> string) list" where
  "add_log message level buf =
     (let b = buf @ [(level, message)] in if length b > MAX_LOG_BUFFER then tl b else b)"

record state =
  fs :: filesystem
  bytes_served :: nat
  log_buffer :: "(string \<times> string) list"

section \<open>Cache paths, validity, deletion\<close>

text \<open>
  \<open>get_cache_path\<close> computes the path and creates its directory. The path depends on the
  configuration and the arguments only; it is \<open>cache_path_of\<close>.
\<close>

definition cache_dir_of :: "string \<Rightarrow> string \<Rightarrow> string \<Rightarrow> path" where
  "cache_dir_of storage distro path =
     joinpath (joinpath (parse_path storage) distro) (take 2 (md5_hex path))"

definition cache_path_of :: "string \<Rightarrow> string \<Rightarrow> string \<Rightarrow> path" where
  "cache_path_of storage distro path =
     (let path_hash = md5_hex path;
          filename = (if basename path \<noteq> [] then basename path else ''index'')
      in joinpath (cache_dir_of storage distro path) (path_hash @ ''_'' @ filename))"

definition get_cache_path :: "config \<Rightarrow> filesystem \<Rightarrow> string \<Rightarrow> string \<Rightarrow> (py_exc + path) \<times> filesystem" where
  "get_cache_path cfg fs0 distro path =
     (case storage_path_resolved cfg of
        None \<Rightarrow> (Inl (Exception ''TypeError''), fs0)
      | Some storage \<Rightarrow>
          (case mkdir_parents fs0 (cache_dir_of storage distro path) of
             (Some e, fs1) \<Rightarrow> (Inl e, fs1)
           | (None, fs1) \<Rightarrow> (Inr (cache_path_of storage distro path), fs1)))"

definition day_us :: int where
  "day_us = 86400000000"

text \<open>
  The clock of the process: \<open>local_now\<close> is \<open>datetime.now()\<close>, the local wall-clock
  time without a zone, in microseconds; \<open>fromtimestamp\<close> turns a time stamp into the local
  wall-clock time the zone rules give for that instant, or raises when the result is out of
  range. The two need not differ by the time that has passed: the zone rules may have moved
  the wall clock in between.
\<close>

record clock =
  local_now :: int
  fromtimestamp :: "int \<Rightarrow> py_exc + int"

text \<open>\<open>cache_path.stat()\<close>.\<close>

definition os_stat :: "filesystem \<Rightarrow> path \<Rightarrow> py_exc + stat" where
  "os_stat fs0 p =
     (case locate fs0 p of
        None \<Rightarrow> Inl (Exception ''OSError'')
      | Some q \<Rightarrow> if node_at (nodes fs0) q = None then Inl (Exception ''OSError'') else stats fs0 q)"

text \<open>
  The \<open>try\<close> that reads the access time and its bare \<open>except\<close>, which calls \<open>stat()\<close>
  again for the modification time: what that second call raises is not caught.
\<close>

definition stat_mtime :: "filesystem \<Rightarrow> path \<Rightarrow> py_exc + int" where
  "stat_mtime fs0 p = (case os_stat fs0 p of Inl e \<Rightarrow> Inl e | Inr s \<Rightarrow> Inr (st_mtime s))"

definition last_access_of :: "filesystem \<Rightarrow> path \<Rightarrow> py_exc + int" where
  "last_access_of fs0 p =
     (case os_stat fs0 p of
        Inl e \<Rightarrow> stat_mtime fs0 p
      | Inr s \<Rightarrow> (case st_atime s of None \<Rightarrow> stat_mtime fs0 p | Some a \<Rightarrow> Inr a))"

text \<open>\<open>timedelta(days=d)\<close> raises \<open>OverflowError\<close> beyond this many days either way.\<close>

definition max_timedelta_days :: int where
  "max_timedelta_days = 999999999"

definition is_cache_valid :: "config \<Rightarrow> filesystem \<Rightarrow> clock \<Rightarrow> path \<Rightarrow> py_exc + bool" where
  "is_cache_valid cfg fs0 clk cache_path =
     (if \<not> path_exists fs0 cache_path then Inr False
      else if \<not> get_config (cache_retention_enabled cfg) True then Inr True
      else
        (let days = get_config (cache_days cfg) 7
         in case last_access_of fs0 cache_path of
              Inl e \<Rightarrow> Inl e
            | Inr last_access \<Rightarrow>
                (case fromtimestamp clk last_access of
                   Inl e \<Rightarrow> Inl e
                 | Inr accessed \<Rightarrow>
                     (let file_age = local_now clk - accessed
                      in if \<bar>days\<bar> > max_timedelta_days then Inl (Exception ''OverflowError'')
                         else Inr (file_age < days * day_us)))))"

text \<open>
  \<open>delete_cached_file\<close>: the result and the state afterwards. Whatever is raised inside is
  caught and gives \<open>False\<close>.
\<close>

definition delete_cached_file :: "config \<Rightarrow> state \<Rightarrow> string \<Rightarrow> bool \<times> state" where
  "delete_cached_file cfg st rel_path =
     (case storage_path_resolved cfg of
        None \<Rightarrow> (False, st)
      | Some storage_path_str \<Rightarrow>
          if storage_path_str = [] then (False, st)
          else
            (let full_path = joinpath (parse_path storage_path_str) rel_path
             in if \<not> prefix (path_str (resolve (fs st) (parse_path storage_path_str))) (path_str full_path)
                then (False, st)
                else if path_exists (fs st) full_path then
                  (case unlink (fs st) full_path of
                     Inl e \<Rightarrow> (False, st)
                   | Inr fs1 \<Rightarrow>
                       (True, st\<lparr>fs := fs1,
                                 log_buffer := add_log (''Deleted file: '' @ rel_path) ''INFO'' (log_buffer st)\<rparr>))
                else (False, st)))"

section \<open>Streaming from the mirrors into the cache\<close>

subsection \<open>What the network answers\<close>

text \<open>
  \<open>requests.get(url, stream=True, ...)\<close> gives a reply (status, headers and a body that
  \<open>iter_content\<close> hands out in chunks until it ends cleanly or raises), or raises
  \<open>requests.Timeout\<close> or another \<open>requests.RequestException\<close> with its message.
\<close>

datatype stream_end = Eof | StreamError string

datatype upstream_body = Body (chunks: "string list") (ending: stream_end)

datatype fetched =
    Reply nat "(string \<times> string) list" upstream_body
  | Timeout
  | RequestException string

text \<open>
  A \<open>flask.Response\<close>: the body is nothing, a text, or one of the three generators, which
  run only when the front-end iterates over them.
\<close>

datatype body =
    NoBody
  | Text string
  | GenPartial upstream_body
  | GenCached path path upstream_body
  | GenStream upstream_body

record response =
  status :: nat
  headers :: "(string \<times> string) list"
  body :: body

datatype url_arg = OneUrl string | UrlList "string list"

subsection \<open>Small helpers\<close>

definition digit_char :: "nat \<Rightarrow> char" where
  "digit_char n = ''0123456789'' ! (n mod 10)"

fun show_nat :: "nat \<Rightarrow> string" where
  "show_nat n = (if n < 10 then [digit_char n] else show_nat (n div 10) @ [digit_char n])"

declare show_nat.simps [simp del]

text \<open>\<open>s.split(c, 1)\<close>.\<close>

definition split1 :: "char \<Rightarrow> string \<Rightarrow> string list" where
  "split1 c s =
     (if c \<in> set s then [takeWhile (\<lambda>x. x \<noteq> c) s, tl (dropWhile (\<lambda>x. x \<noteq> c) s)] else [s])"

text \<open>The cache file is named \<open>hash_filename\<close>; this is the part after the first underscore.\<close>

definition real_name_of :: "string \<Rightarrow> string" where
  "real_name_of filename =
     (let parts = split1 (CHR ''_'') filename
      in if length parts > 1 then parts ! 1 else filename)"

definition excluded_headers :: "string list" where
  "excluded_headers = [''transfer-encoding'', ''connection'', ''content-encoding'', ''content-length'']"

definition filter_headers :: "(string \<times> string) list \<Rightarrow> (string \<times> string) list" where
  "filter_headers hs = filter (\<lambda>(key, value). lower key \<notin> set excluded_headers) hs"

definition show_error :: "string option \<Rightarrow> string" where
  "show_error e = (case e of None \<Rightarrow> ''None'' | Some s \<Rightarrow> s)"

subsection \<open>\<open>stream_and_cache\<close>\<close>

text \<open>
  The loop over the mirrors, with \<open>last_error\<close> and the log as they stand. A reply of
  200, 206 or 304 ends the loop with a response; everything else records an error and goes
  to the next mirror; when no mirror is left the answer is 502. \<open>with_suffix\<close> raising is
  not caught by the loop.
\<close>

fun mirror_loop ::
  "(string \<Rightarrow> (string \<times> string) list \<Rightarrow> fetched) \<Rightarrow> (string \<times> string) list \<Rightarrow> bool \<Rightarrow> path \<Rightarrow>
   string list \<Rightarrow> string option \<Rightarrow> (string \<times> string) list \<Rightarrow> (py_exc + response) \<times> (string \<times> string) list"
where
  "mirror_loop get hdrs should_cache cache_path [] last_error log =
     (Inr \<lparr>status = 502, headers = [],
            body = Text (''All upstream mirrors failed. Last error: '' @ show_error last_error)\<rparr>,
      add_log (''FAILED: '' @ path_name cache_path @ '' ('' @ show_error last_error @ '')'') ''ERROR'' log)"
| "mirror_loop get hdrs should_cache cache_path (url # urls) last_error log =
     (case get url hdrs of
        Timeout \<Rightarrow> mirror_loop get hdrs should_cache cache_path urls (Some ''Timeout'') log
      | RequestException msg \<Rightarrow> mirror_loop get hdrs should_cache cache_path urls (Some msg) log
      | Reply status_code response_headers content \<Rightarrow>
          if status_code = 404
          then mirror_loop get hdrs should_cache cache_path urls (Some ''404 Not Found'') log
          else if status_code \<in> {200, 206, 304} then
            (let resp_headers = filter_headers response_headers
             in if status_code = 304 then
                  (Inr \<lparr>status = 304, headers = resp_headers, body = NoBody\<rparr>,
                   add_log (''HIT (304): '' @ path_name cache_path) ''SUCCESS'' log)
                else if status_code = 206 then
                  (Inr \<lparr>status = 206, headers = resp_headers, body = GenPartial content\<rparr>,
                   add_log (''PARTIAL: '' @ path_name cache_path) ''WARNING'' log)
                else if should_cache then
                  (case with_suffix cache_path ''.tmp'' of
                     Inl e \<Rightarrow> (Inl e, log)
                   | Inr temp_path \<Rightarrow>
                       (Inr \<lparr>status = 200, headers = resp_headers,
                              body = GenCached temp_path cache_path content\<rparr>, log))
                else (Inr \<lparr>status = 200, headers = resp_headers, body = GenStream content\<rparr>, log))
          else mirror_loop get hdrs should_cache cache_path urls
                 (Some (''HTTP '' @ show_nat status_code)) log)"

definition urls_of :: "url_arg \<Rightarrow> string list" where
  "urls_of urls = (case urls of OneUrl u \<Rightarrow> [u] | UrlList us \<Rightarrow> us)"

definition stream_and_cache ::
  "(string \<Rightarrow> string \<Rightarrow> bool option) \<Rightarrow> string list \<Rightarrow> (string \<Rightarrow> (string \<times> string) list \<Rightarrow> fetched) \<Rightarrow>
   url_arg \<Rightarrow> path \<Rightarrow> (string \<times> string) list \<Rightarrow> (string \<times> string) list \<Rightarrow>
   (py_exc + response) \<times> (string \<times> string) list"
where
  "stream_and_cache ext pats get urls cache_path hdrs log =
     (let real_filename = real_name_of (path_name cache_path);
          should_cache = \<not> is_blacklisted ext pats real_filename;
          log1 = (if \<not> should_cache then add_log (''BLACKLISTED: '' @ real_filename) ''WARNING'' log else log)
      in mirror_loop get hdrs should_cache cache_path (urls_of urls) None log1)"

subsection \<open>Running the generators\<close>

text \<open>
  The front-end pulls the chunks. \<open>client\<close> says when it stops: \<open>None\<close> when it reads to
  the end, \<open>Some n\<close> when it closes the generator after \<open>n\<close> chunks (a client that went
  away). Closing raises \<open>GeneratorExit\<close> at the \<open>yield\<close> where the generator waits;
  a generator that was never started just ends. \<open>fault\<close> says where the disk fails, if it
  does: the file is written through a buffer, so the error of a write that cannot reach the
  disk comes up at some call of \<open>f.write\<close> (counted from 0) or only when the file is
  closed.
\<close>

datatype gen_end = NotStarted | Returned | Raised py_exc

datatype fault = WriteFails nat | CloseFails

fun write_loop ::
  "state \<Rightarrow> string list \<Rightarrow> string list \<Rightarrow> stream_end \<Rightarrow> nat option \<Rightarrow> fault option \<Rightarrow> nat \<Rightarrow> string list \<Rightarrow>
   string list \<times> py_exc option \<times> state"
where
  "write_loop st q [] e client fault k sent =
     (sent, (case e of Eof \<Rightarrow> None | StreamError msg \<Rightarrow> Some (Exception msg)), st)"
| "write_loop st q (chunk # rest) e client fault k sent =
     (if chunk = [] then write_loop st q rest e client fault k sent
      else if fault = Some (WriteFails k) then (sent, Some (Exception ''OSError''), st)
      else
        (let st1 = st\<lparr>fs := append_bytes (fs st) q chunk,
                      bytes_served := bytes_served st + length chunk\<rparr>
         in if client = Some 1 then (sent @ [chunk], Some GeneratorExit, st1)
            else write_loop st1 q rest e (map_option (\<lambda>n. n - 1) client) fault (k + 1)
                   (sent @ [chunk])))"

text \<open>The \<open>except Exception\<close> block of \<open>generate_cached\<close>.\<close>

definition caching_failed :: "path \<Rightarrow> path \<Rightarrow> string \<Rightarrow> state \<Rightarrow> gen_end \<times> state" where
  "caching_failed temp_path cache_path msg st =
     (let st1 = st\<lparr>log_buffer :=
                   add_log (''Error caching '' @ path_name cache_path @ '': '' @ msg) ''ERROR'' (log_buffer st)\<rparr>
      in if path_exists (fs st1) temp_path then
           (case unlink (fs st1) temp_path of
              Inl e \<Rightarrow> (Raised e, st1)
            | Inr fs1 \<Rightarrow> (Returned, st1\<lparr>fs := fs1\<rparr>))
         else (Returned, st1))"

text \<open>
  \<open>generate_cached\<close>: the chunks the client got, how the generator ended, and the state
  then. \<open>GeneratorExit\<close> is not an \<open>Exception\<close>: it passes the \<open>except\<close> block by. Whatever
  way the \<open>with\<close> block is left, the file is closed, and a close that fails raises in place
  of what was being raised.
  The thread started now and then to save the counters writes to the database only and is
  left out.
\<close>

definition generate_cached ::
  "path \<Rightarrow> path \<Rightarrow> upstream_body \<Rightarrow> nat option \<Rightarrow> fault option \<Rightarrow> state \<Rightarrow> string list \<times> gen_end \<times> state"
where
  "generate_cached temp_path cache_path content client fault st =
     (if client = Some 0 then ([], NotStarted, st)
      else
        (case open_wb (fs st) temp_path of
           Inl e \<Rightarrow>
             (case e of
                Exception msg \<Rightarrow> (case caching_failed temp_path cache_path msg st of (r, st1) \<Rightarrow> ([], r, st1))
              | GeneratorExit \<Rightarrow> ([], Raised GeneratorExit, st))
         | Inr (q, fs1) \<Rightarrow>
             (case write_loop (st\<lparr>fs := fs1\<rparr>) q (chunks content) (ending content) client fault 0 [] of
                (sent, raised, st2) \<Rightarrow>
                  (let st3 = st2\<lparr>fs := close_file (fs st2) q\<rparr>;
                       leaving = (if fault = Some CloseFails then Some (Exception ''OSError'') else raised)
                   in case leaving of
                        Some GeneratorExit \<Rightarrow> (sent, Raised GeneratorExit, st3)
                      | Some (Exception msg) \<Rightarrow>
                          (case caching_failed temp_path cache_path msg st3 of (r, st4) \<Rightarrow> (sent, r, st4))
                      | None \<Rightarrow>
                          (case rename (fs st3) temp_path cache_path of
                             Inl e \<Rightarrow>
                               (case e of
                                  Exception msg \<Rightarrow>
                                    (case caching_failed temp_path cache_path msg st3 of
                                       (r, st4) \<Rightarrow> (sent, r, st4))
                                | GeneratorExit \<Rightarrow> (sent, Raised GeneratorExit, st3))
                           | Inr fs4 \<Rightarrow>
                               (sent, Returned,
                                st3\<lparr>fs := fs4,
                                    log_buffer := add_log (''CACHED: '' @ path_name cache_path) ''SUCCESS''
                                                    (log_buffer st3)\<rparr>))))))"

text \<open>\<open>generate_partial\<close> and \<open>generate_stream\<close> are the same loop: count and pass on.\<close>

fun pass_loop :: "state \<Rightarrow> string list \<Rightarrow> stream_end \<Rightarrow> nat option \<Rightarrow> string list \<Rightarrow> string list \<times> gen_end \<times> state" where
  "pass_loop st [] e client sent =
     (sent, (case e of Eof \<Rightarrow> Returned | StreamError msg \<Rightarrow> Raised (Exception msg)), st)"
| "pass_loop st (chunk # rest) e client sent =
     (if chunk = [] then pass_loop st rest e client sent
      else
        (let st1 = st\<lparr>bytes_served := bytes_served st + length chunk\<rparr>
         in if client = Some 1 then (sent @ [chunk], Raised GeneratorExit, st1)
            else pass_loop st1 rest e (map_option (\<lambda>n. n - 1) client) (sent @ [chunk])))"

definition generate_stream :: "upstream_body \<Rightarrow> nat option \<Rightarrow> state \<Rightarrow> string list \<times> gen_end \<times> state" where
  "generate_stream content client st =
     (if client = Some 0 then ([], NotStarted, st)
      else pass_loop st (chunks content) (ending content) client [])"

text \<open>Iterating over the body of a response.\<close>

definition run_body :: "body \<Rightarrow> nat option \<Rightarrow> fault option \<Rightarrow> state \<Rightarrow> string list \<times> gen_end \<times> state" where
  "run_body b client fault st =
     (case b of
        NoBody \<Rightarrow> ([], Returned, st)
      | Text t \<Rightarrow> ([t], Returned, st)
      | GenPartial content \<Rightarrow> generate_stream content client st
      | GenStream content \<Rightarrow> generate_stream content client st
      | GenCached temp_path cache_path content \<Rightarrow> generate_cached temp_path cache_path content client fault st)"

section \<open>Searching the cached package indexes\<close>

text \<open>
  What \<open>search_upstream_packages\<close> asks of the outside: the mirror table, \<open>HEAD\<close>
  requests (\<open>None\<close> when the request raises), the triples \<open>os.walk\<close> produces for a
  directory, and the lines a file gives before it ends or reading fails, through \<open>gzip\<close>
  or plainly.
\<close>

datatype mirror_entry = One string | Many "string list"

record env =
  get_upstream_key :: "string \<Rightarrow> string \<Rightarrow> string"
  get_all_mirrors :: "string \<rightharpoonup> mirror_entry"
  requests_head :: "string \<Rightarrow> nat option"
  os_walk :: "string \<Rightarrow> (string \<times> string list \<times> string list) list"
  gzip_lines :: "string \<Rightarrow> string list"
  text_lines :: "string \<Rightarrow> string list"

record hit =
  h_name :: string
  h_path :: string
  h_distro :: string
  h_url :: "string option"
  h_version :: "string option"
  h_cached :: bool

definition limit :: nat where
  "limit = 20"

text \<open>\<open>s.strip()\<close>, with the ASCII white space.\<close>

definition py_space :: "char list" where
  "py_space = [CHR 0x09, CHR 0x0A, CHR 0x0B, CHR 0x0C, CHR 0x0D, CHR 0x1C, CHR 0x1D, CHR 0x1E, CHR 0x1F, CHR 0x20]"

definition strip :: "string \<Rightarrow> string" where
  "strip s = rev (dropWhile (\<lambda>c. c \<in> set py_space) (rev (dropWhile (\<lambda>c. c \<in> set py_space) s)))"

text \<open>
  The direct probe: the first mirror that answers 200 to \<open>HEAD\<close> gives the one hit that is
  returned; a mirror whose request or whose cache path computation raises is skipped.
  \<open>None\<close> means that the loop ended without returning.
\<close>

fun probe_mirrors ::
  "env \<Rightarrow> config \<Rightarrow> clock \<Rightarrow> string \<Rightarrow> string \<Rightarrow> string list \<Rightarrow> filesystem \<Rightarrow> hit list option \<times> filesystem"
where
  "probe_mirrors en cfg clk distro query [] fs0 = (None, fs0)"
| "probe_mirrors en cfg clk distro query (mirror # mirrors) fs0 =
     (let url = mirror @ ''/'' @ query
      in case requests_head en url of
           None \<Rightarrow> probe_mirrors en cfg clk distro query mirrors fs0
         | Some status_code \<Rightarrow>
             if status_code = 200 then
               (case get_cache_path cfg fs0 distro query of
                  (Inl e, fs1) \<Rightarrow> probe_mirrors en cfg clk distro query mirrors fs1
                | (Inr cache_path, fs1) \<Rightarrow>
                    (case is_cache_valid cfg fs1 clk cache_path of
                       Inl e \<Rightarrow> probe_mirrors en cfg clk distro query mirrors fs1
                     | Inr is_cached \<Rightarrow>
                         (Some [\<lparr>h_name = basename query, h_path = query, h_distro = distro,
                                 h_url = Some url, h_version = None, h_cached = is_cached\<rparr>], fs1)))
             else probe_mirrors en cfg clk distro query mirrors fs0)"

text \<open>
  \<open>parse_packages_file\<close>, line by line: \<open>current_pkg\<close> is the stanza read so far, newest
  field first. An exception ends the parse with the matches found so far.
\<close>

fun parse_lines ::
  "config \<Rightarrow> clock \<Rightarrow> string \<Rightarrow> string \<Rightarrow> string list \<Rightarrow> (string \<times> string) list \<Rightarrow> hit list \<Rightarrow> filesystem \<Rightarrow>
   hit list \<times> filesystem"
where
  "parse_lines cfg clk distro query [] current_pkg matches fs0 = (matches, fs0)"
| "parse_lines cfg clk distro query (l # ls) current_pkg matches fs0 =
     (let line = strip l
      in if line = [] then
           (case (current_pkg \<noteq> [], map_of current_pkg ''Package'', map_of current_pkg ''Filename'') of
              (True, Some package, Some pkg_path) \<Rightarrow>
                if str_contains (lower query) (lower package) then
                  (case get_cache_path cfg fs0 distro pkg_path of
                     (Inl e, fs1) \<Rightarrow> (matches, fs1)
                   | (Inr cache_path, fs1) \<Rightarrow>
                       (case is_cache_valid cfg fs1 clk cache_path of
                          Inl e \<Rightarrow> (matches, fs1)
                        | Inr is_cached \<Rightarrow>
                            parse_lines cfg clk distro query ls []
                              (matches @ [\<lparr>h_name = package, h_path = pkg_path, h_distro = distro,
                                           h_url = None,
                                           h_version = Some (case map_of current_pkg ''Version'' of
                                                               None \<Rightarrow> ''unknown'' | Some v \<Rightarrow> v),
                                           h_cached = is_cached\<rparr>]) fs1))
                else parse_lines cfg clk distro query ls [] matches fs0
            | _ \<Rightarrow> parse_lines cfg clk distro query ls [] matches fs0)
         else if CHR '':'' \<in> set line then
           (let key = takeWhile (\<lambda>c. c \<noteq> CHR '':'') line;
                val = tl (dropWhile (\<lambda>c. c \<noteq> CHR '':'') line)
            in parse_lines cfg clk distro query ls ((strip key, strip val) # current_pkg) matches fs0)
         else parse_lines cfg clk distro query ls current_pkg matches fs0)"

definition parse_packages_file ::
  "env \<Rightarrow> config \<Rightarrow> clock \<Rightarrow> string \<Rightarrow> string \<Rightarrow> string \<Rightarrow> filesystem \<Rightarrow> hit list \<times> filesystem"
where
  "parse_packages_file en cfg clk distro query filepath fs0 =
     parse_lines cfg clk distro query
       (if suffix ''.gz'' filepath then gzip_lines en filepath else text_lines en filepath)
       [] [] fs0"

text \<open>
  The loop \<open>for m in file_matches\<close>: the results, the count, and whether the function
  returned from inside the loop.
\<close>

fun emit :: "hit list \<Rightarrow> nat \<Rightarrow> hit list \<Rightarrow> hit list \<times> nat \<times> bool" where
  "emit results count [] = (results, count, False)"
| "emit results count (m # ms) =
     (if count + 1 \<ge> limit then (results @ [m], count + 1, True)
      else emit (results @ [m]) (count + 1) ms)"

text \<open>The loop \<open>for filename in files\<close> of one directory.\<close>

fun scan_files ::
  "env \<Rightarrow> config \<Rightarrow> clock \<Rightarrow> string \<Rightarrow> string \<Rightarrow> string \<Rightarrow> string list \<Rightarrow> hit list \<Rightarrow> nat \<Rightarrow> filesystem \<Rightarrow>
   hit list \<times> nat \<times> bool \<times> filesystem"
where
  "scan_files en cfg clk distro query root [] results count fs0 = (results, count, False, fs0)"
| "scan_files en cfg clk distro query root (filename # files) results count fs0 =
     (if str_contains ''Packages'' filename \<and> str_contains ''Packages'' (real_name_of filename) then
        (case parse_packages_file en cfg clk distro query (os_path_join root filename) fs0 of
           (file_matches, fs1) \<Rightarrow>
             (case emit results count file_matches of
                (results1, count1, True) \<Rightarrow> (results1, count1, True, fs1)
              | (results1, count1, False) \<Rightarrow>
                  scan_files en cfg clk distro query root files results1 count1 fs1))
      else scan_files en cfg clk distro query root files results count fs0)"

text \<open>The loop over the triples of \<open>os.walk\<close>.\<close>

fun scan_walk ::
  "env \<Rightarrow> config \<Rightarrow> clock \<Rightarrow> string \<Rightarrow> string \<Rightarrow> (string \<times> string list \<times> string list) list \<Rightarrow>
   hit list \<Rightarrow> nat \<Rightarrow> filesystem \<Rightarrow> hit list \<times> filesystem"
where
  "scan_walk en cfg clk distro query [] results count fs0 = (results, fs0)"
| "scan_walk en cfg clk distro query ((root, dirs, files) # rest) results count fs0 =
     (case scan_files en cfg clk distro query root files results count fs0 of
        (results1, count1, True, fs1) \<Rightarrow> (results1, fs1)
      | (results1, count1, False, fs1) \<Rightarrow>
          if count1 \<ge> limit then (results1, fs1)
          else scan_walk en cfg clk distro query rest results1 count1 fs1)"

definition search_upstream_packages ::
  "env \<Rightarrow> config \<Rightarrow> clock \<Rightarrow> filesystem \<Rightarrow> string \<Rightarrow> string \<Rightarrow> hit list \<times> filesystem"
where
  "search_upstream_packages en cfg clk fs0 distro query =
     (case (if CHR ''/'' \<in> set query then
              (case get_all_mirrors en (get_upstream_key en distro query) of
                 None \<Rightarrow> (None, fs0)
               | Some mirrors \<Rightarrow>
                   probe_mirrors en cfg clk distro query
                     (case mirrors of One m \<Rightarrow> [m] | Many ms \<Rightarrow> ms) fs0)
            else (None, fs0)) of
        (Some results, fs1) \<Rightarrow> (results, fs1)
      | (None, fs1) \<Rightarrow>
          (case storage_path_resolved cfg of
             None \<Rightarrow> ([], fs1)
           | Some storage_path_str \<Rightarrow>
               if storage_path_str = [] then ([], fs1)
               else
                 (let storage_path = joinpath (parse_path storage_path_str) distro
                  in if \<not> path_exists fs1 storage_path then ([], fs1)
                     else scan_walk en cfg clk distro query (os_walk en (path_str storage_path)) [] 0 fs1)))"

section \<open>Vocabulary of the specification\<close>

text \<open>
  The specification calls a mirror's answer recoverable when it is a 404, another status of
  400 or more, a timeout or a transport error, and speaks of the error recorded for it.
\<close>

definition recoverable :: "fetched \<Rightarrow> bool" where
  "recoverable f =
     (case f of Timeout \<Rightarrow> True | RequestException msg \<Rightarrow> True
      | Reply code hs b \<Rightarrow> code = 404 \<or> code \<ge> 400)"

definition error_text :: "fetched \<Rightarrow> string" where
  "error_text f =
     (case f of Timeout \<Rightarrow> ''Timeout'' | RequestException msg \<Rightarrow> msg
      | Reply code hs b \<Rightarrow> if code = 404 then ''404 Not Found'' else ''HTTP '' @ show_nat code)"

text \<open>The name of the cache file: the hash, an underscore, and the base name or \<open>index\<close>.\<close>

definition cache_filename :: "string \<Rightarrow> string" where
  "cache_filename path = md5_hex path @ ''_'' @ (if basename path = [] then ''index'' else basename path)"

section \<open>A small world for examples\<close>

text \<open>
  A storage root \<open>/srv/storage\<close> with the directory of one Debian package, a file next to
  the storage root, and three mirrors of which the third has the package.
\<close>

definition example_stat :: "string list \<Rightarrow> py_exc + stat" where
  "example_stat q =
     (if q = [''srv'', ''outside.txt''] then Inr \<lparr>st_atime = Some 1000, st_mtime = 500\<rparr>
      else if q = [''srv'', ''storage''] then Inr \<lparr>st_atime = None, st_mtime = 500\<rparr>
      else if q = [''srv''] then Inr \<lparr>st_atime = Some 300000000000000000, st_mtime = 500\<rparr>
      else Inl (Exception ''OSError''))"

definition example_fs :: filesystem where
  "example_fs =
     \<lparr>cwd = [],
      nodes = [[''srv''] \<mapsto> Dir, [''srv'', ''storage''] \<mapsto> Dir,
               [''srv'', ''storage'', ''debian''] \<mapsto> Dir,
               [''srv'', ''storage'', ''debian'', ''b4''] \<mapsto> Dir,
               [''srv'', ''outside.txt''] \<mapsto> File ''secret''],
      stats = example_stat,
      journal = []\<rparr>"

definition example_cfg :: config where
  "example_cfg = \<lparr>storage_path_resolved = Some ''/srv/storage'', cache_days = None,
                   cache_retention_enabled = None\<rparr>"



text \<open>A clock in a zone that is one hour ahead of the time stamps.\<close>

definition example_clock :: clock where
  "example_clock = \<lparr>local_now = 3600002000, fromtimestamp = (\<lambda>t. Inr (t + 3600000000))\<rparr>"



definition example_state :: state where
  "example_state = \<lparr>fs = example_fs, bytes_served = 0, log_buffer = []\<rparr>"

definition example_cache_path :: path where
  "example_cache_path =
     Path ''/'' [''srv'', ''storage'', ''debian'', ''b4'', ''b42022f5bd8cbb6d9462eb1af349bc75_hello_2.10.deb'']"

definition example_temp_path :: path where
  "example_temp_path =
     Path ''/'' [''srv'', ''storage'', ''debian'', ''b4'', ''b42022f5bd8cbb6d9462eb1af349bc75_hello_2.10.tmp'']"

definition example_body :: upstream_body where
  "example_body = Body [''abc'', [], ''de''] Eof"

definition example_get :: "string \<Rightarrow> (string \<times> string) list \<Rightarrow> fetched" where
  "example_get url hdrs =
     (if url = ''http://a.example/pool/main/h/hello/hello_2.10.deb'' then Reply 503 [] (Body [] Eof)
      else if url = ''http://b.example/pool/main/h/hello/hello_2.10.deb'' then Reply 404 [] (Body [] Eof)
      else if url = ''http://c.example/pool/main/h/hello/hello_2.10.deb''
      then Reply 200 [(''Content-Length'', ''5''), (''ETag'', ''x'')] example_body
      else Timeout)"

definition example_env :: env where
  "example_env =
     \<lparr>get_upstream_key = (\<lambda>distro path. distro),
      get_all_mirrors = [''debian'' \<mapsto> Many [''http://a.example'', ''http://b.example'']],
      requests_head = (\<lambda>url. None),
      os_walk = (\<lambda>top. [(top, [''b4''], []), (top @ ''/b4'', [], [''b4_notes.txt''])]),
      gzip_lines = (\<lambda>filepath. []),
      text_lines = (\<lambda>filepath. [])\<rparr>"

definition example_hit :: hit where
  "example_hit =
     \<lparr>h_name = ''hello'', h_path = ''pool/main/h/hello/hello_2.10.deb'', h_distro = ''debian'',
      h_url = None, h_version = Some ''2.10'', h_cached = False\<rparr>"

section \<open>Properties of the blacklist matcher\<close>

lemma str_contains_Nil: "str_contains [] s"
  by (cases s) simp_all

lemma remove1_append_new: "p \<notin> set pats \<Longrightarrow> remove1 p (pats @ [p]) = pats"
  by (induction pats) auto

lemma doc_regex_items:
  "re_parse (pattern_regex ''*-doc_*.deb'') =
     Some [AnyStar, Lit (CHR ''-''), Lit (CHR ''d''), Lit (CHR ''o''), Lit (CHR ''c''), Lit (CHR ''_''),
           AnyStar, Lit (CHR ''.''), Lit (CHR ''d''), Lit (CHR ''e''), Lit (CHR ''b'')]"
  by (simp add: pattern_regex_def replace_char_def backslash_def re_meta_def)

lemma doc_regex_vim:
  "re_search_items
     [AnyStar, Lit (CHR ''-''), Lit (CHR ''d''), Lit (CHR ''o''), Lit (CHR ''c''), Lit (CHR ''_''),
      AnyStar, Lit (CHR ''.''), Lit (CHR ''d''), Lit (CHR ''e''), Lit (CHR ''b'')] ''vim-doc_9.0.deb''"
  by code_simp

lemma doc_regex_i18n:
  "\<not> re_search_items
     [AnyStar, Lit (CHR ''-''), Lit (CHR ''d''), Lit (CHR ''o''), Lit (CHR ''c''), Lit (CHR ''_''),
      AnyStar, Lit (CHR ''.''), Lit (CHR ''d''), Lit (CHR ''e''), Lit (CHR ''b'')] ''i18n/Translation-en.gz''"
  by code_simp

lemma doc_regex_hello:
  "\<not> re_search_items
     [AnyStar, Lit (CHR ''-''), Lit (CHR ''d''), Lit (CHR ''o''), Lit (CHR ''c''), Lit (CHR ''_''),
      AnyStar, Lit (CHR ''.''), Lit (CHR ''d''), Lit (CHR ''e''), Lit (CHR ''b'')] ''hello_2.10.deb''"
  by code_simp

lemma translations_i18n: "\<not> str_contains (lower ''translations'') (lower ''i18n/Translation-en.gz'')"
  by code_simp

lemma translations_hello: "\<not> str_contains (lower ''translations'') (lower ''hello_2.10.deb'')"
  by code_simp

lemma doc_vim: "str_contains (lower ''doc'') (lower ''vim-doc_9.0.deb'')"
  by code_simp

lemma star_in_patterns:
  "CHR ''*'' \<in> set ''*-doc_*.deb''" "CHR ''*'' \<notin> set ''translations''" "CHR ''*'' \<notin> set ''doc''"
  by simp_all

lemmas scenario_eval =
  is_blacklisted.simps star_in_patterns re_search_def doc_regex_items doc_regex_vim
  doc_regex_i18n doc_regex_hello translations_i18n translations_hello
  option.case bool.case if_True if_False simp_thms

text \<open>
  C4, as the code has it: with the patterns \<open>*-doc_*.deb\<close> and \<open>translations\<close>,
  \<open>vim-doc_9.0.deb\<close> is blacklisted, and neither \<open>i18n/Translation-en.gz\<close> nor
  \<open>hello_2.10.deb\<close> is. The second name holds \<open>translation\<close> but not \<open>translations\<close>,
  and a plain pattern matches only as a substring.
\<close>

theorem scenario_blacklist:
  "is_blacklisted ext [''*-doc_*.deb'', ''translations''] ''vim-doc_9.0.deb''
   \<and> \<not> is_blacklisted ext [''*-doc_*.deb'', ''translations''] ''i18n/Translation-en.gz''
   \<and> \<not> is_blacklisted ext [''*-doc_*.deb'', ''translations''] ''hello_2.10.deb''"
  by (simp only: scenario_eval)

theorem scenario_blacklist_witness:
  "is_blacklisted re_rejects [''*-doc_*.deb'', ''translations''] ''vim-doc_9.0.deb''
   \<and> \<not> is_blacklisted re_rejects [''*-doc_*.deb'', ''translations''] ''i18n/Translation-en.gz''
   \<and> \<not> is_blacklisted re_rejects [''*-doc_*.deb'', ''translations''] ''hello_2.10.deb''"
  using scenario_blacklist [of re_rejects] .

text \<open>C4 as the specification words it, with \<open>i18n/Translation-en.gz\<close> blacklisted, is false.\<close>

theorem scenario_blacklist_counterexample:
  "\<not> (is_blacklisted re_rejects [''*-doc_*.deb'', ''translations''] ''vim-doc_9.0.deb''
      \<and> is_blacklisted re_rejects [''*-doc_*.deb'', ''translations''] ''i18n/Translation-en.gz''
      \<and> \<not> is_blacklisted re_rejects [''*-doc_*.deb'', ''translations''] ''hello_2.10.deb'')"
  by (simp only: scenario_eval)

text \<open>
  C8, as the code has it: when the pattern is not yet in the list, adding it and then
  removing it, both succeeding, gives back the list, and so the matcher answers as before
  on every file name.
\<close>

theorem add_then_remove_restores:
  assumes "pattern \<notin> set pats"
    and "add_blacklist_pattern db1 pattern pats = (True, pats1)"
    and "remove_blacklist_pattern db2 pattern pats1 = (True, pats2)"
  shows "pats2 = pats
         \<and> (\<forall>filename. is_blacklisted ext pats2 filename = is_blacklisted ext pats filename)"
proof -
  from assms(1,2) have "pats1 = pats @ [pattern]"
    by (auto simp: add_blacklist_pattern_def split: if_splits)
  with assms(1,3) have "pats2 = pats"
    by (auto simp: remove_blacklist_pattern_def remove1_append_new split: if_splits)
  then show ?thesis by simp
qed

theorem add_then_remove_restores_witness:
  "''translations'' \<notin> set [''*-doc_*.deb'']
   \<and> add_blacklist_pattern True ''translations'' [''*-doc_*.deb'']
       = (True, [''*-doc_*.deb'', ''translations''])
   \<and> remove_blacklist_pattern True ''translations'' [''*-doc_*.deb'', ''translations'']
       = (True, [''*-doc_*.deb''])
   \<and> (\<forall>filename. is_blacklisted re_rejects [''*-doc_*.deb''] filename
                   = is_blacklisted re_rejects [''*-doc_*.deb''] filename)"
proof -
  have h1: "''translations'' \<notin> set [''*-doc_*.deb'']" by simp
  have h2: "add_blacklist_pattern True ''translations'' [''*-doc_*.deb'']
              = (True, [''*-doc_*.deb'', ''translations''])"
    by (simp add: add_blacklist_pattern_def)
  have h3: "remove_blacklist_pattern True ''translations'' [''*-doc_*.deb'', ''translations'']
              = (True, [''*-doc_*.deb''])"
    by (simp add: remove_blacklist_pattern_def)
  from add_then_remove_restores [OF h1 h2 h3, of re_rejects] h1 h2 h3 show ?thesis by simp
qed

text \<open>
  C8 as the specification words it fails when the pattern was there before: adding \<open>doc\<close>
  to the list that holds \<open>doc\<close> changes nothing, removing it empties the list, and
  \<open>vim-doc_9.0.deb\<close> is no longer blacklisted.
\<close>

theorem add_then_remove_counterexample:
  "is_blacklisted re_rejects
     (snd (remove_blacklist_pattern True ''doc'' (snd (add_blacklist_pattern True ''doc'' [''doc'']))))
     ''vim-doc_9.0.deb''
   \<noteq> is_blacklisted re_rejects [''doc''] ''vim-doc_9.0.deb''"
  by (simp add: add_blacklist_pattern_def remove_blacklist_pattern_def doc_vim del: str_contains.simps)

lemma mirror_loop_not_cached:
  "\<exists>r. fst (mirror_loop get hdrs False cache_path urls last_error log) = Inr r
       \<and> (\<forall>t c b. body r \<noteq> GenCached t c b)"
  by (induction urls arbitrary: last_error) (auto split: fetched.splits)

text \<open>
  C10: while the empty pattern is in the blacklist, every file name is blacklisted, and
  \<open>stream_and_cache\<close> never answers with the generator that writes the cache.
\<close>

theorem empty_pattern_blacklists_all:
  assumes "[] \<in> set pats"
  shows "is_blacklisted ext pats filename
         \<and> (\<exists>r. fst (stream_and_cache ext pats get urls cache_path hdrs log) = Inr r
                \<and> (\<forall>t c b. body r \<noteq> GenCached t c b))"
proof -
  have bl: "is_blacklisted ext pats f" for f
    using assms
  proof (induction pats)
    case Nil
    then show ?case by simp
  next
    case (Cons p ps)
    show ?case
    proof (cases "p = []")
      case True
      then show ?thesis by (simp add: lower_def str_contains_Nil)
    next
      case False
      with Cons have "is_blacklisted ext ps f" by simp
      then show ?thesis by (simp split: option.splits bool.splits)
    qed
  qed
  then show ?thesis
    by (simp add: stream_and_cache_def Let_def mirror_loop_not_cached)
qed

theorem empty_pattern_blacklists_all_witness:
  "[] \<in> set [''*-doc_*.deb'', []]
   \<and> is_blacklisted re_rejects [''*-doc_*.deb'', []] ''hello_2.10.deb''
   \<and> (\<exists>r. fst (stream_and_cache re_rejects [''*-doc_*.deb'', []] (\<lambda>u h. Timeout)
                  (UrlList [''http://a.example/hello_2.10.deb''])
                  (Path ''/'' [''srv'', ''ab'', ''x_hello_2.10.deb'']) [] []) = Inr r
          \<and> (\<forall>t c b. body r \<noteq> GenCached t c b))"
proof -
  have h: "[] \<in> set [''*-doc_*.deb'', []]" by simp
  from empty_pattern_blacklists_all [OF h] h show ?thesis by blast
qed

section \<open>Facts about the example world\<close>

lemma nodes_example:
  "node_at (nodes example_fs) [] = Some Dir"
  "node_at (nodes example_fs) [''srv''] = Some Dir"
  "node_at (nodes example_fs) [''srv'', ''storage''] = Some Dir"
  "node_at (nodes example_fs) [''srv'', ''storage'', ''debian''] = Some Dir"
  "node_at (nodes example_fs) [''srv'', ''storage'', ''debian'', ''b4''] = Some Dir"
  by (simp_all add: node_at_def example_fs_def)

lemma locate_example_temp:
  "locate example_fs example_temp_path
     = Some [''srv'', ''storage'', ''debian'', ''b4'', ''b42022f5bd8cbb6d9462eb1af349bc75_hello_2.10.tmp'']"
  by (simp add: locate_def example_temp_path_def nodes_example)

lemma temp_absent:
  "nodes example_fs [''srv'', ''storage'', ''debian'', ''b4'', ''b42022f5bd8cbb6d9462eb1af349bc75_hello_2.10.tmp''] = None"
  by (simp add: example_fs_def)







section \<open>Properties of the cache layout\<close>

lemma hex_digit_in: "hex_digit n \<in> set hex_digits"
proof -
  have "n mod 16 < length hex_digits" by (simp add: hex_digits_def)
  then show ?thesis unfolding hex_digit_def by (rule nth_mem)
qed

lemma md5_hex_chars: "set (md5_hex s) \<subseteq> set hex_digits"
  by (auto simp: md5_hex_def hex_byte_def hex_digit_in)

lemma length_hex_bytes: "length (concat (map hex_byte bs)) = 2 * length bs"
  by (induction bs) (simp_all add: hex_byte_def)

lemma length_md5_digest: "length (md5_digest m) = 16"
  by (simp add: md5_digest_def le_bytes_def split: prod.splits)

lemma length_md5_hex: "length (md5_hex s) = 32"
  by (simp add: md5_hex_def length_hex_bytes length_md5_digest)

lemma hex_no_slash: "c \<in> set hex_digits \<Longrightarrow> c \<noteq> CHR ''/'' \<and> c \<noteq> CHR ''.''"
  by (auto simp: hex_digits_def)

lemma split_char_none: "c \<notin> set s \<Longrightarrow> split_char c s = [s]"
  by (induction s) auto

lemma parse_path_segment:
  assumes "CHR ''/'' \<notin> set s" "s \<noteq> []" "s \<noteq> ''.''"
  shows "parse_path s = Path [] [s]"
proof -
  from assms obtain x xs where s: "s = x # xs" "x \<noteq> CHR ''/''" by (cases s) auto
  then have "path_root s = []" by (cases xs) (simp_all add: path_root_def)
  with assms show ?thesis by (simp add: parse_path_def split_char_none)
qed

lemma joinpath_segment:
  assumes "CHR ''/'' \<notin> set s" "s \<noteq> []" "s \<noteq> ''.''"
  shows "joinpath p s = Path (anchor p) (segs p @ [s])"
  by (simp add: joinpath_def parse_path_segment [OF assms])

lemma basename_no_slash: "CHR ''/'' \<notin> set (basename s)"
proof
  assume "CHR ''/'' \<in> set (basename s)"
  then have "CHR ''/'' \<in> set (takeWhile (\<lambda>c. c \<noteq> CHR ''/'') (rev s))" by (simp add: basename_def)
  then show False by (auto dest: set_takeWhileD)
qed

lemma hash_prefix_segment:
  "CHR ''/'' \<notin> set (take 2 (md5_hex p)) \<and> take 2 (md5_hex p) \<noteq> [] \<and> take 2 (md5_hex p) \<noteq> ''.''
   \<and> take 2 (md5_hex p) \<noteq> ''..''"
proof -
  have l: "length (take 2 (md5_hex p)) = 2" by (simp add: length_md5_hex)
  have "set (take 2 (md5_hex p)) \<subseteq> set hex_digits"
    using md5_hex_chars set_take_subset by fastforce
  then have a: "CHR ''/'' \<notin> set (take 2 (md5_hex p))" "CHR ''.'' \<notin> set (take 2 (md5_hex p))"
    using hex_no_slash by blast+
  from l have b1: "take 2 (md5_hex p) \<noteq> []" by auto
  from a(2) have b2: "take 2 (md5_hex p) \<noteq> ''.''" by (metis list.set_intros(1))
  note b = b1 b2
  from a(2) have "take 2 (md5_hex p) \<noteq> ''..''" by (metis list.set_intros(1))
  with a b show ?thesis by simp
qed

lemma hash_name_segment:
  assumes "CHR ''/'' \<notin> set f"
  shows "CHR ''/'' \<notin> set (md5_hex p @ ''_'' @ f) \<and> md5_hex p @ ''_'' @ f \<noteq> []
         \<and> md5_hex p @ ''_'' @ f \<noteq> ''.'' \<and> md5_hex p @ ''_'' @ f \<noteq> ''..''"
proof -
  have "CHR ''/'' \<notin> set (md5_hex p)" using md5_hex_chars hex_no_slash by blast
  with assms have a: "CHR ''/'' \<notin> set (md5_hex p @ ''_'' @ f)" by simp
  have "length (md5_hex p @ ''_'' @ f) \<ge> 33" by (simp add: length_md5_hex)
  then have "md5_hex p @ ''_'' @ f \<noteq> []" "md5_hex p @ ''_'' @ f \<noteq> ''.''" "md5_hex p @ ''_'' @ f \<noteq> ''..''"
    by (auto simp del: append.simps append_Cons dest!: arg_cong [where f = length])
  with a show ?thesis by simp
qed

lemma cache_filename_segment:
  "CHR ''/'' \<notin> set (cache_filename p) \<and> cache_filename p \<noteq> [] \<and> cache_filename p \<noteq> ''.''
   \<and> cache_filename p \<noteq> ''..''"
  unfolding cache_filename_def
  by (rule hash_name_segment) (simp add: basename_no_slash)

lemma cache_path_of_segs:
  "cache_path_of storage distro path =
     Path (anchor (joinpath (parse_path storage) distro))
       (segs (joinpath (parse_path storage) distro) @ [take 2 (md5_hex path), cache_filename path])"
proof -
  have d: "cache_dir_of storage distro path =
        Path (anchor (joinpath (parse_path storage) distro))
          (segs (joinpath (parse_path storage) distro) @ [take 2 (md5_hex path)])"
    using hash_prefix_segment [of path] by (simp add: cache_dir_of_def joinpath_segment)
  have "cache_path_of storage distro path = joinpath (cache_dir_of storage distro path) (cache_filename path)"
    by (simp add: cache_path_of_def cache_filename_def Let_def)
  also have "\<dots> = Path (anchor (cache_dir_of storage distro path)) (segs (cache_dir_of storage distro path) @ [cache_filename path])"
    using cache_filename_segment [of path] by (simp add: joinpath_segment)
  finally show ?thesis by (simp add: d)
qed

lemma collapse_append: "collapse cur (a @ b) = collapse (collapse cur a) b"
  by (induction a arbitrary: cur) simp_all

lemma collapse_plain: "''..'' \<notin> set b \<Longrightarrow> collapse cur b = cur @ b"
  by (induction b arbitrary: cur) auto

text \<open>
  C5, as the code has it: for a distro that is a relative path without \<open>..\<close>, the cache
  path has the root of the storage path and, as its segments, those of the storage path,
  those of the distro, the first two digits of the hash, and the file name
  \<open>hash_basename\<close> (\<open>index\<close> for an empty base name); it lies under the storage root, also
  after resolving; two calls that return give the same path; and \<open>get_cache_path\<close> returns
  that path unless creating the directory raises.
\<close>

theorem cache_path_layout:
  assumes "anchor (parse_path distro) = []" and "''..'' \<notin> set (segs (parse_path distro))"
  shows "cache_path_of storage distro path =
           Path (anchor (parse_path storage))
             (segs (parse_path storage) @ segs (parse_path distro)
                @ [take 2 (md5_hex path),
                   md5_hex path @ ''_'' @ (if basename path = [] then ''index'' else basename path)])
         \<and> prefix (segs (resolve fs0 (parse_path storage)))
                  (segs (resolve fs0 (cache_path_of storage distro path)))
         \<and> (\<forall>cfg fs1 fs2 a b.
               fst (get_cache_path cfg fs1 distro path) = Inr a
               \<and> fst (get_cache_path cfg fs2 distro path) = Inr b \<longrightarrow> a = b)
         \<and> (\<forall>cfg. storage_path_resolved cfg = Some storage \<longrightarrow>
               fst (get_cache_path cfg fs0 distro path)
                 = (case fst (mkdir_parents fs0 (cache_dir_of storage distro path)) of
                      None \<Rightarrow> Inr (cache_path_of storage distro path)
                    | Some e \<Rightarrow> Inl e))"
proof -
  have j: "joinpath (parse_path storage) distro
             = Path (anchor (parse_path storage)) (segs (parse_path storage) @ segs (parse_path distro))"
    using assms(1) by (simp add: joinpath_def)
  have eq: "cache_path_of storage distro path =
           Path (anchor (parse_path storage))
             (segs (parse_path storage) @ segs (parse_path distro)
                @ [take 2 (md5_hex path), cache_filename path])"
    by (simp add: cache_path_of_segs j)
  have plain: "''..'' \<notin> set (segs (parse_path distro) @ [take 2 (md5_hex path), cache_filename path])"
    using assms(2) hash_prefix_segment [of path] cache_filename_segment [of path] by auto
  have under: "prefix (segs (resolve fs0 (parse_path storage)))
                  (segs (resolve fs0 (cache_path_of storage distro path)))"
    unfolding eq resolve_def
    using collapse_plain [OF plain]
    by (simp add: collapse_append [of _ "segs (parse_path storage)", simplified] del: append.simps append_Cons)
  have det: "\<forall>cfg fs1 fs2 a b.
               fst (get_cache_path cfg fs1 distro path) = Inr a
               \<and> fst (get_cache_path cfg fs2 distro path) = Inr b \<longrightarrow> a = b"
    by (auto simp: get_cache_path_def split: option.splits prod.splits)
  have ret: "\<forall>cfg. storage_path_resolved cfg = Some storage \<longrightarrow>
               fst (get_cache_path cfg fs0 distro path)
                 = (case fst (mkdir_parents fs0 (cache_dir_of storage distro path)) of
                      None \<Rightarrow> Inr (cache_path_of storage distro path)
                    | Some e \<Rightarrow> Inl e)"
    by (auto simp: get_cache_path_def split: option.splits prod.splits)
  from eq under det ret show ?thesis by (simp add: cache_filename_def)
qed

lemma basename_hello: "basename ''pool/main/h/hello/hello_2.10.deb'' = ''hello_2.10.deb''"
  by (simp add: basename_def)

lemma parse_debian: "parse_path ''debian'' = Path [] [''debian'']"
  by (simp add: parse_path_def path_root_def)

lemma parse_storage: "parse_path ''/srv/storage'' = Path ''/'' [''srv'', ''storage'']"
  by (simp add: parse_path_def path_root_def)

lemma parse_etc: "parse_path ''/etc'' = Path ''/'' [''etc'']"
  by (simp add: parse_path_def path_root_def)

lemma parse_dotdot: "parse_path ''..'' = Path [] [''..'']"
  by (simp add: parse_path_def path_root_def)

theorem cache_path_layout_witness:
  "anchor (parse_path ''debian'') = [] \<and> ''..'' \<notin> set (segs (parse_path ''debian''))
   \<and> cache_path_of ''/srv/storage'' ''debian'' ''pool/main/h/hello/hello_2.10.deb''
       = Path ''/'' [''srv'', ''storage'', ''debian'',
                    take 2 (md5_hex ''pool/main/h/hello/hello_2.10.deb''),
                    md5_hex ''pool/main/h/hello/hello_2.10.deb'' @ ''_hello_2.10.deb'']
   \<and> prefix [''srv'', ''storage'']
         (segs (resolve example_fs
            (cache_path_of ''/srv/storage'' ''debian'' ''pool/main/h/hello/hello_2.10.deb'')))"
proof -
  have h1: "anchor (parse_path ''debian'') = []" by (simp add: parse_debian)
  have h2: "''..'' \<notin> set (segs (parse_path ''debian''))" by (simp add: parse_debian)
  have r: "segs (resolve example_fs (parse_path ''/srv/storage'')) = [''srv'', ''storage'']"
    by (simp add: resolve_def parse_storage)
  note L = cache_path_layout [OF h1 h2, of "''/srv/storage''" "''pool/main/h/hello/hello_2.10.deb''" example_fs]
  from L have "cache_path_of ''/srv/storage'' ''debian'' ''pool/main/h/hello/hello_2.10.deb''
       = Path (anchor (parse_path ''/srv/storage''))
             (segs (parse_path ''/srv/storage'') @ segs (parse_path ''debian'')
                @ [take 2 (md5_hex ''pool/main/h/hello/hello_2.10.deb''),
                   md5_hex ''pool/main/h/hello/hello_2.10.deb''
                     @ ''_'' @ (if basename ''pool/main/h/hello/hello_2.10.deb'' = [] then ''index''
                                else basename ''pool/main/h/hello/hello_2.10.deb'')])"
    by (rule conjunct1)
  then have c1: "cache_path_of ''/srv/storage'' ''debian'' ''pool/main/h/hello/hello_2.10.deb''
       = Path ''/'' [''srv'', ''storage'', ''debian'',
                    take 2 (md5_hex ''pool/main/h/hello/hello_2.10.deb''),
                    md5_hex ''pool/main/h/hello/hello_2.10.deb'' @ ''_hello_2.10.deb'']"
    by (simp add: parse_debian parse_storage basename_hello)
  from L have "prefix (segs (resolve example_fs (parse_path ''/srv/storage'')))
         (segs (resolve example_fs
            (cache_path_of ''/srv/storage'' ''debian'' ''pool/main/h/hello/hello_2.10.deb'')))"
    by blast
  then have c2: "prefix [''srv'', ''storage'']
         (segs (resolve example_fs
            (cache_path_of ''/srv/storage'' ''debian'' ''pool/main/h/hello/hello_2.10.deb'')))"
    by (simp only: r)
  from h1 h2 c1 c2 show ?thesis by (intro conjI)
qed

text \<open>
  C5 as the specification words it, for every distro, is false: an absolute distro replaces
  the storage root, and a distro \<open>..\<close> leaves it.
\<close>

theorem cache_path_escapes_counterexample:
  "\<not> prefix (segs (resolve example_fs (parse_path ''/srv/storage'')))
       (segs (resolve example_fs
          (cache_path_of ''/srv/storage'' ''/etc'' ''pool/main/h/hello/hello_2.10.deb'')))
   \<and> \<not> prefix (segs (resolve example_fs (parse_path ''/srv/storage'')))
       (segs (resolve example_fs
          (cache_path_of ''/srv/storage'' ''..'' ''pool/main/h/hello/hello_2.10.deb'')))"
proof -
  let ?p = "''pool/main/h/hello/hello_2.10.deb''"
  have plain: "''..'' \<notin> set [take 2 (md5_hex ?p), cache_filename ?p]"
    using hash_prefix_segment [of ?p] cache_filename_segment [of ?p] by auto
  have r: "segs (resolve example_fs (parse_path ''/srv/storage'')) = [''srv'', ''storage'']"
    by (simp add: resolve_def parse_storage)
  have a: "segs (resolve example_fs (cache_path_of ''/srv/storage'' ''/etc'' ?p))
             = [''etc'', take 2 (md5_hex ?p), cache_filename ?p]"
    using collapse_plain [OF plain, of "[''etc'']"]
    by (simp add: cache_path_of_segs joinpath_def parse_etc parse_storage resolve_def)
  have b: "segs (resolve example_fs (cache_path_of ''/srv/storage'' ''..'' ?p))
             = [''srv'', take 2 (md5_hex ?p), cache_filename ?p]"
    using collapse_plain [OF plain, of "[''srv'']"]
    by (simp add: cache_path_of_segs joinpath_def parse_dotdot parse_storage resolve_def)
  have "take 2 (md5_hex ?p) \<noteq> ''storage''"
  proof
    assume "take 2 (md5_hex ?p) = ''storage''"
    then have "length (take 2 (md5_hex ?p)) = length ''storage''" by (rule arg_cong)
    then show False by (simp add: length_md5_hex)
  qed
  with a b r show ?thesis by simp
qed

section \<open>Properties of validity and deletion\<close>













lemma join_outside:
  "joinpath (Path ''/'' [''srv'', ''storage'']) ''../outside.txt''
     = Path ''/'' [''srv'', ''storage'', ''..'', ''outside.txt'']"
  by (simp add: joinpath_def parse_path_def path_root_def)

lemma locate_traversal:
  "locate example_fs (Path ''/'' [''srv'', ''storage'', ''..'', ''outside.txt''])
     = Some [''srv'', ''outside.txt'']"
  by (simp add: locate_def nodes_example)

text \<open>
  C1 does not hold of the code: with the storage root \<open>/srv/storage\<close>, deleting
  \<open>../outside.txt\<close> passes the check, which compares the unresolved joined path with the
  resolved root, returns \<open>True\<close> and removes \<open>/srv/outside.txt\<close>, a file outside the root.
\<close>

theorem delete_traversal_escapes:
  "fst (delete_cached_file example_cfg example_state ''../outside.txt'') = True
   \<and> nodes (fs (snd (delete_cached_file example_cfg example_state ''../outside.txt'')))
        [''srv'', ''outside.txt''] = None
   \<and> nodes (fs example_state) [''srv'', ''outside.txt''] = Some (File ''secret'')
   \<and> resolve (fs example_state) (joinpath (parse_path ''/srv/storage'') ''../outside.txt'')
       = Path ''/'' [''srv'', ''outside.txt'']"
  by (simp add: delete_cached_file_def example_cfg_def example_state_def parse_storage join_outside
        locate_traversal path_exists_def unlink_def resolve_def path_str_def node_at_def)
     (simp add: example_fs_def)

section \<open>Properties of the mirror loop\<close>

lemma recoverable_step:
  "recoverable (get u hdrs) \<Longrightarrow>
   mirror_loop get hdrs sc cp (u # us) le log = mirror_loop get hdrs sc cp us (Some (error_text (get u hdrs))) log"
  by (auto simp: recoverable_def error_text_def split: fetched.splits)

lemma recoverable_prefix:
  "\<forall>u \<in> set pre. recoverable (get u hdrs) \<Longrightarrow>
   mirror_loop get hdrs sc cp (pre @ rest) le log
     = mirror_loop get hdrs sc cp rest
         (if pre = [] then le else Some (error_text (get (last pre) hdrs))) log"
proof (induction pre arbitrary: le)
  case Nil
  then show ?case by simp
next
  case (Cons u us)
  then show ?case by (simp add: recoverable_step del: mirror_loop.simps)
qed

text \<open>
  C6: the mirrors are tried in the order listed. Mirrors that answer with a 404, another
  status of 400 or more, a timeout or a transport error are passed over, the loop going on
  with the rest of the list and the error of the last of them recorded; and when every
  mirror fails so, the answer is 502 with a body that carries the last error.
\<close>

theorem mirror_failover:
  assumes "\<forall>u \<in> set pre. recoverable (get u hdrs)"
  shows "mirror_loop get hdrs sc cache_path (pre @ rest) le log
           = mirror_loop get hdrs sc cache_path rest
               (if pre = [] then le else Some (error_text (get (last pre) hdrs))) log
         \<and> (\<exists>r. fst (stream_and_cache ext pats get (UrlList pre) cache_path hdrs log) = Inr r
                \<and> status r = 502
                \<and> body r = Text (''All upstream mirrors failed. Last error: ''
                             @ (if pre = [] then ''None'' else error_text (get (last pre) hdrs))))"
proof -
  have a: "mirror_loop get hdrs sc cache_path (pre @ rest) le log
           = mirror_loop get hdrs sc cache_path rest
               (if pre = [] then le else Some (error_text (get (last pre) hdrs))) log" for sc rest le log
    using assms by (rule recoverable_prefix)
  have "fst (mirror_loop get hdrs sc cache_path pre None log1)
          = Inr \<lparr>status = 502, headers = [],
                 body = Text (''All upstream mirrors failed. Last error: ''
                             @ (if pre = [] then ''None'' else error_text (get (last pre) hdrs)))\<rparr>" for sc log1
    using a [of sc "[]" None log1] by (simp add: show_error_def)
  then have "fst (stream_and_cache ext pats get (UrlList pre) cache_path hdrs log)
          = Inr \<lparr>status = 502, headers = [],
                 body = Text (''All upstream mirrors failed. Last error: ''
                             @ (if pre = [] then ''None'' else error_text (get (last pre) hdrs)))\<rparr>"
    by (simp add: stream_and_cache_def Let_def urls_of_def)
  then have "\<exists>r. fst (stream_and_cache ext pats get (UrlList pre) cache_path hdrs log) = Inr r
                \<and> status r = 502
                \<and> body r = Text (''All upstream mirrors failed. Last error: ''
                             @ (if pre = [] then ''None'' else error_text (get (last pre) hdrs)))"
    by simp
  with a show ?thesis by blast
qed

lemma show_503: "show_nat 503 = ''503''"
  by code_simp

theorem mirror_failover_witness:
  "(recoverable (example_get ''http://b.example/pool/main/h/hello/hello_2.10.deb'' [])
    \<and> recoverable (example_get ''http://a.example/pool/main/h/hello/hello_2.10.deb'' []))
   \<and> (\<exists>r. fst (stream_and_cache re_rejects [] example_get
                 (UrlList [''http://b.example/pool/main/h/hello/hello_2.10.deb'', ''http://a.example/pool/main/h/hello/hello_2.10.deb''])
                 example_cache_path [] []) = Inr r
          \<and> status r = 502
          \<and> body r = Text ''All upstream mirrors failed. Last error: HTTP 503'')"
proof -
  have h: "\<forall>u \<in> set [''http://b.example/pool/main/h/hello/hello_2.10.deb'', ''http://a.example/pool/main/h/hello/hello_2.10.deb''].
             recoverable (example_get u [])"
    by (simp add: recoverable_def example_get_def)
  have e: "error_text (example_get ''http://a.example/pool/main/h/hello/hello_2.10.deb'' []) = ''HTTP 503''"
    by (simp add: error_text_def example_get_def show_503)
  have "\<exists>r. fst (stream_and_cache re_rejects [] example_get
                 (UrlList [''http://b.example/pool/main/h/hello/hello_2.10.deb'', ''http://a.example/pool/main/h/hello/hello_2.10.deb''])
                 example_cache_path [] []) = Inr r
          \<and> status r = 502
          \<and> body r = Text (''All upstream mirrors failed. Last error: ''
                @ (if [''http://b.example/pool/main/h/hello/hello_2.10.deb'', ''http://a.example/pool/main/h/hello/hello_2.10.deb''] = []
                   then ''None''
                   else error_text (example_get
                          (last [''http://b.example/pool/main/h/hello/hello_2.10.deb'', ''http://a.example/pool/main/h/hello/hello_2.10.deb'']) [])))"
    using mirror_failover [where get = example_get and hdrs = "[]" and sc = False
      and pre = "[''http://b.example/pool/main/h/hello/hello_2.10.deb'', ''http://a.example/pool/main/h/hello/hello_2.10.deb'']"
      and cache_path = example_cache_path and rest = "[]" and le = None and log = "[]"
      and ext = re_rejects and pats = "[]", OF h]
    by (rule conjunct2)
  then have "\<exists>r. fst (stream_and_cache re_rejects [] example_get
                 (UrlList [''http://b.example/pool/main/h/hello/hello_2.10.deb'', ''http://a.example/pool/main/h/hello/hello_2.10.deb''])
                 example_cache_path [] []) = Inr r
          \<and> status r = 502
          \<and> body r = Text ''All upstream mirrors failed. Last error: HTTP 503''"
    by (simp add: e)
  with h show ?thesis by simp
qed

section \<open>Properties of the cache writer\<close>

lemma walk_update_file:
  "walk ns cur ss = Some q' \<Longrightarrow> node_at ns q \<noteq> Some Dir \<Longrightarrow> walk (ns(q \<mapsto> File b)) cur ss = Some q'"
proof (induction ss arbitrary: cur)
  case Nil
  then show ?case by simp
next
  case (Cons s ss)
  have d: "node_at ns cur = Some Dir"
  proof (rule ccontr)
    assume "node_at ns cur \<noteq> Some Dir"
    then have "walk ns cur (s # ss) = None" by simp
    with Cons.prems(1) show False by simp
  qed
  with Cons.prems(2) have "cur \<noteq> q" by auto
  with d have d': "node_at (ns(q \<mapsto> File b)) cur = Some Dir"
    by (cases "cur = []") (simp_all add: node_at_def)
  show ?case
  proof (cases "s = ''..''")
    case True
    with Cons.prems(1) d have "walk ns (butlast cur) ss = Some q'" by simp
    then have "walk (ns(q \<mapsto> File b)) (butlast cur) ss = Some q'"
      using Cons.prems(2) by (rule Cons.IH)
    with d' True show ?thesis by (simp only: walk.simps if_True simp_thms)
  next
    case False
    with Cons.prems(1) d have "walk ns (cur @ [s]) ss = Some q'" by simp
    then have "walk (ns(q \<mapsto> File b)) (cur @ [s]) ss = Some q'"
      using Cons.prems(2) by (rule Cons.IH)
    with d' False show ?thesis by (simp only: walk.simps if_True if_False simp_thms)
  qed
qed

lemma write_loop_clean:
  assumes "nodes (fs st) q = Some (File b)"
  shows "\<exists>st'. write_loop st q cs e None None k sent
                 = (sent @ filter (\<lambda>c. c \<noteq> []) cs,
                    (case e of Eof \<Rightarrow> None | StreamError msg \<Rightarrow> Some (Exception msg)), st')
              \<and> nodes (fs st') = (nodes (fs st))(q \<mapsto> File (b @ concat cs))
              \<and> cwd (fs st') = cwd (fs st)
              \<and> journal (fs st') = journal (fs st) @ map (OpWrite q) (filter (\<lambda>c. c \<noteq> []) cs)
              \<and> bytes_served st' = bytes_served st + length (concat cs)
              \<and> log_buffer st' = log_buffer st"
  using assms
proof (induction cs arbitrary: st sent b k)
  case Nil
  then have "(nodes (fs st))(q \<mapsto> File b) = nodes (fs st)" by (simp add: fun_upd_idem)
  then show ?case by simp
next
  case (Cons c cs)
  show ?case
  proof (cases "c = []")
    case True
    with Cons.IH [OF Cons.prems, of k sent] show ?thesis by simp
  next
    case False
    define st1 where "st1 = st\<lparr>fs := append_bytes (fs st) q c, bytes_served := bytes_served st + length c\<rparr>"
    have n1: "nodes (fs st1) q = Some (File (b @ c))"
      using Cons.prems by (simp add: st1_def append_bytes_def)
    from Cons.IH [OF n1, of "k + 1" "sent @ [c]"] obtain st' where
      w: "write_loop st1 q cs e None None (k + 1) (sent @ [c])
            = ((sent @ [c]) @ filter (\<lambda>c. c \<noteq> []) cs,
               (case e of Eof \<Rightarrow> None | StreamError msg \<Rightarrow> Some (Exception msg)), st')"
      and p: "nodes (fs st') = (nodes (fs st1))(q \<mapsto> File ((b @ c) @ concat cs))"
        "cwd (fs st') = cwd (fs st1)"
        "journal (fs st') = journal (fs st1) @ map (OpWrite q) (filter (\<lambda>c. c \<noteq> []) cs)"
        "bytes_served st' = bytes_served st1 + length (concat cs)"
        "log_buffer st' = log_buffer st1"
      by blast
    have f: "nodes (fs st1) = (nodes (fs st))(q \<mapsto> File (b @ c))" "cwd (fs st1) = cwd (fs st)"
      "journal (fs st1) = journal (fs st) @ [OpWrite q c]"
      "bytes_served st1 = bytes_served st + length c" "log_buffer st1 = log_buffer st"
      using Cons.prems by (simp_all add: st1_def append_bytes_def)
    have "write_loop st q (c # cs) e None None k sent = write_loop st1 q cs e None None (k + 1) (sent @ [c])"
      using False by (simp add: st1_def Let_def)
    then have eq: "write_loop st q (c # cs) e None None k sent
                 = (sent @ filter (\<lambda>c. c \<noteq> []) (c # cs),
                    (case e of Eof \<Rightarrow> None | StreamError msg \<Rightarrow> Some (Exception msg)), st')"
      using w False by simp
    have n: "nodes (fs st') = (nodes (fs st))(q \<mapsto> File (b @ concat (c # cs)))"
      using p(1) f(1) by simp
    have j: "journal (fs st') = journal (fs st) @ map (OpWrite q) (filter (\<lambda>c. c \<noteq> []) (c # cs))"
      using p(3) f(3) False by simp
    have "cwd (fs st') = cwd (fs st)" "bytes_served st' = bytes_served st + length (concat (c # cs))"
      "log_buffer st' = log_buffer st"
      using p f by simp_all
    with eq n j show ?thesis by blast
  qed
qed





text \<open>
  The \<open>except\<close> block does its work for what it catches: when the stream from the mirror
  raises, the file that was written is removed again and nothing else changes on disk.
\<close>

lemma stream_error_removes_temp:
  assumes "locate (fs st) temp_path = Some q" and "node_at (nodes (fs st)) q \<noteq> Some Dir"
    and "ending content = StreamError msg"
  shows "\<exists>st'. generate_cached temp_path cache_path content None None st
                 = (filter (\<lambda>c. c \<noteq> []) (chunks content), Returned, st')
              \<and> nodes (fs st') = (nodes (fs st))(q := None)
              \<and> journal (fs st')
                  = journal (fs st) @ [OpOpen q]
                      @ map (OpWrite q) (filter (\<lambda>c. c \<noteq> []) (chunks content))
                      @ [OpClose q, OpUnlink q]"
proof -
  define ns where "ns = nodes (fs st)"
  define fs1 where "fs1 = (fs st)\<lparr>nodes := ns(q \<mapsto> File []), journal := journal (fs st) @ [OpOpen q]\<rparr>"
  from assms(2) have qne: "q \<noteq> []" by (auto simp: node_at_def)
  have op: "open_wb (fs st) temp_path = Inr (q, fs1)"
    using assms(1,2) by (simp add: open_wb_def fs1_def ns_def)
  have "nodes (fs (st\<lparr>fs := fs1\<rparr>)) q = Some (File [])" by (simp add: fs1_def)
  from write_loop_clean [OF this, of "chunks content" "StreamError msg" 0 "[]"] obtain st2 where
    w: "write_loop (st\<lparr>fs := fs1\<rparr>) q (chunks content) (StreamError msg) None None 0 []
          = (filter (\<lambda>c. c \<noteq> []) (chunks content), Some (Exception msg), st2)"
    and n2: "nodes (fs st2) = ns(q \<mapsto> File (concat (chunks content)))"
    and c2: "cwd (fs st2) = cwd (fs st)"
    and j2: "journal (fs st2) = journal (fs st) @ [OpOpen q]
               @ map (OpWrite q) (filter (\<lambda>c. c \<noteq> []) (chunks content))"
    by (auto simp: fs1_def)
  define st3 where "st3 = st2\<lparr>fs := close_file (fs st2) q\<rparr>"
  have n3: "nodes (fs st3) = ns(q \<mapsto> File (concat (chunks content)))"
    and c3: "cwd (fs st3) = cwd (fs st)"
    and j3: "journal (fs st3) = journal (fs st) @ [OpOpen q]
               @ map (OpWrite q) (filter (\<lambda>c. c \<noteq> []) (chunks content)) @ [OpClose q]"
    by (simp_all add: st3_def close_file_def n2 c2 j2)
  have "walk ns (if anchor temp_path = [] then cwd (fs st) else []) (segs temp_path) = Some q"
    using assms(1) by (simp add: locate_def ns_def)
  then have "walk (ns(q \<mapsto> File (concat (chunks content))))
               (if anchor temp_path = [] then cwd (fs st) else []) (segs temp_path) = Some q"
    using assms(2) unfolding ns_def by (rule walk_update_file)
  then have l1: "locate (fs st3) temp_path = Some q"
    by (cases "anchor temp_path = []") (simp_all add: locate_def n3 c3)
  have na: "node_at (nodes (fs st3)) q = Some (File (concat (chunks content)))"
    using qne by (simp add: node_at_def n3)
  have ex: "path_exists (fs st3) temp_path"
    by (simp add: path_exists_def l1 na)
  have ul: "unlink (fs st3) temp_path
              = Inr ((fs st3)\<lparr>nodes := (nodes (fs st3))(q := None),
                              journal := journal (fs st3) @ [OpUnlink q]\<rparr>)"
    by (simp add: unlink_def l1 na)
  have "\<exists>st4. caching_failed temp_path cache_path msg st3 = (Returned, st4)
              \<and> nodes (fs st4) = (nodes (fs st3))(q := None)
              \<and> journal (fs st4) = journal (fs st3) @ [OpUnlink q]"
    using ex ul by (simp add: caching_failed_def Let_def)
  then obtain st4 where h: "caching_failed temp_path cache_path msg st3 = (Returned, st4)"
    and n4: "nodes (fs st4) = (nodes (fs st3))(q := None)"
    and j4: "journal (fs st4) = journal (fs st3) @ [OpUnlink q]"
    by blast
  have "generate_cached temp_path cache_path content None None st
          = (filter (\<lambda>c. c \<noteq> []) (chunks content), Returned, st4)"
    using op w h assms(3) by (simp add: generate_cached_def Let_def st3_def [symmetric])
  moreover have "nodes (fs st4) = (nodes (fs st))(q := None)"
    by (simp add: n4 n3 ns_def)
  moreover have "journal (fs st4) = journal (fs st) @ [OpOpen q]
                      @ map (OpWrite q) (filter (\<lambda>c. c \<noteq> []) (chunks content))
                      @ [OpClose q, OpUnlink q]"
    by (simp add: j4 j3)
  ultimately show ?thesis by blast
qed

text \<open>
  C3 does not hold of the code: when the client goes away after the first chunk, closing
  the generator raises \<open>GeneratorExit\<close>, which \<open>except Exception\<close> does not catch; the
  generator ends with the file \<open>..._hello_2.10.tmp\<close> left behind, holding that chunk.
\<close>

theorem client_disconnect_leaves_temp:
  "fst (generate_cached example_temp_path example_cache_path example_body (Some 1) None example_state) = [''abc'']
   \<and> fst (snd (generate_cached example_temp_path example_cache_path example_body (Some 1) None example_state))
       = Raised GeneratorExit
   \<and> nodes (fs (snd (snd (generate_cached example_temp_path example_cache_path example_body (Some 1) None
                 example_state))))
        [''srv'', ''storage'', ''debian'', ''b4'', ''b42022f5bd8cbb6d9462eb1af349bc75_hello_2.10.tmp'']
       = Some (File ''abc'')"
  by (simp add: generate_cached_def open_wb_def locate_example_temp example_state_def node_at_def
        temp_absent example_body_def append_bytes_def close_file_def Let_def)

section \<open>Properties of the index search\<close>

lemma emit_spec:
  "length results < limit \<Longrightarrow>
   emit results (length results) ms
     = (results @ take (limit - length results) ms,
        min limit (length results + length ms),
        limit \<le> length results + length ms)"
proof (induction ms arbitrary: results)
  case Nil
  then show ?case by simp
next
  case (Cons m ms)
  show ?case
  proof (cases "length results + 1 \<ge> limit")
    case True
    with Cons.prems have "limit - length results = Suc 0" by simp
    with True show ?thesis by simp
  next
    case False
    then have l: "length (results @ [m]) < limit" by simp
    from False obtain k where k: "limit - length results = Suc k" "limit - length (results @ [m]) = k"
      by (cases "limit - length results") auto
    from Cons.IH [OF l] False k show ?thesis by simp
  qed
qed

lemma emit_inv:
  assumes "length results < limit" and "emit results (length results) ms = (r, c, b)"
  shows "c = length r \<and> (if b then length r = limit else length r < limit)"
  using assms by (auto simp: emit_spec min_def)

lemma scan_files_inv:
  "count = length results \<Longrightarrow> count < limit \<Longrightarrow>
   scan_files en cfg now distro query root files results count fs0 = (r, c, b, fs1) \<Longrightarrow>
   c = length r \<and> (if b then length r = limit else length r < limit)"
proof (induction files arbitrary: results count fs0)
  case Nil
  then show ?case by auto
next
  case (Cons filename files)
  show ?case
  proof (cases "str_contains ''Packages'' filename \<and> str_contains ''Packages'' (real_name_of filename)")
    case False
    with Cons.prems(3) have "scan_files en cfg now distro query root files results count fs0 = (r, c, b, fs1)"
      by auto
    with Cons.IH Cons.prems(1,2) show ?thesis by blast
  next
    case True
    obtain fm fs' where pf: "parse_packages_file en cfg now distro query (os_path_join root filename) fs0 = (fm, fs')"
      by (cases "parse_packages_file en cfg now distro query (os_path_join root filename) fs0")
    obtain r1 c1 b1 where em: "emit results count fm = (r1, c1, b1)"
      by (cases "emit results count fm")
    from em Cons.prems(1,2) have inv: "c1 = length r1 \<and> (if b1 then length r1 = limit else length r1 < limit)"
      using emit_inv [of results fm r1 c1 b1] by simp
    show ?thesis
    proof (cases b1)
      case True
      with \<open>str_contains ''Packages'' filename \<and> str_contains ''Packages'' (real_name_of filename)\<close>
        pf em Cons.prems(3) have "r = r1" "c = c1" "b = True" by auto
      with inv True show ?thesis by simp
    next
      case False
      with \<open>str_contains ''Packages'' filename \<and> str_contains ''Packages'' (real_name_of filename)\<close>
        pf em Cons.prems(3)
      have "scan_files en cfg now distro query root files r1 c1 fs' = (r, c, b, fs1)" by auto
      moreover from inv False have "c1 = length r1" "c1 < limit" by auto
      ultimately show ?thesis using Cons.IH by blast
    qed
  qed
qed

lemma scan_walk_bound:
  "count = length results \<Longrightarrow> count < limit \<Longrightarrow>
   length (fst (scan_walk en cfg now distro query w results count fs0)) \<le> limit"
proof (induction w arbitrary: results count fs0)
  case Nil
  then show ?case by simp
next
  case (Cons t rest)
  obtain root dirs files where t: "t = (root, dirs, files)" by (cases t)
  obtain r c b fs1 where sf: "scan_files en cfg now distro query root files results count fs0 = (r, c, b, fs1)"
    by (cases "scan_files en cfg now distro query root files results count fs0")
  from scan_files_inv [OF Cons.prems sf]
  have inv: "c = length r" "if b then length r = limit else length r < limit" by auto
  show ?case
  proof (cases b)
    case True
    with t sf inv show ?thesis by simp
  next
    case False
    with inv have "c < limit" by simp
    with Cons.IH [OF inv(1) this] t sf False show ?thesis by simp
  qed
qed

lemma probe_mirrors_one:
  "probe_mirrors en cfg now distro query mirrors fs0 = (Some rs, fs1) \<Longrightarrow> length rs = 1"
  by (induction mirrors arbitrary: fs0)
     (auto simp: Let_def split: option.splits if_splits prod.splits sum.splits)

text \<open>
  C9: \<open>search_upstream_packages\<close> returns at most 20 hits, and the loop that takes the
  matches of one index file into the results stops at the cap: from fewer than 20 results it
  adds matches only until there are 20, and says whether it stopped there.
\<close>

theorem search_capped:
  "length (fst (search_upstream_packages en cfg now fs0 distro query)) \<le> 20
   \<and> (\<forall>results ms. length results < 20 \<longrightarrow>
         emit results (length results) ms
           = (results @ take (20 - length results) ms,
              min 20 (length results + length ms),
              20 \<le> length results + length ms))"
proof -
  have lim: "limit = 20" by (simp add: limit_def)
  obtain pr fs1 where p: "(if CHR ''/'' \<in> set query then
              (case get_all_mirrors en (get_upstream_key en distro query) of
                 None \<Rightarrow> (None, fs0)
               | Some mirrors \<Rightarrow>
                   probe_mirrors en cfg now distro query
                     (case mirrors of One m \<Rightarrow> [m] | Many ms \<Rightarrow> ms) fs0)
            else (None, fs0)) = (pr, fs1)"
    by (cases "(if CHR ''/'' \<in> set query then
              (case get_all_mirrors en (get_upstream_key en distro query) of
                 None \<Rightarrow> (None, fs0)
               | Some mirrors \<Rightarrow>
                   probe_mirrors en cfg now distro query
                     (case mirrors of One m \<Rightarrow> [m] | Many ms \<Rightarrow> ms) fs0)
            else (None, fs0))")
  have "length (fst (search_upstream_packages en cfg now fs0 distro query)) \<le> limit"
  proof (cases pr)
    case (Some rs)
    with p have "length rs = 1"
      by (auto split: if_splits option.splits dest: probe_mirrors_one)
    with p Some show ?thesis
      unfolding search_upstream_packages_def by (simp add: lim)
  next
    case None
    have "length (fst (scan_walk en cfg now distro query w [] 0 fs1)) \<le> limit" for w
      by (rule scan_walk_bound) (simp_all add: lim)
    with p None show ?thesis
      unfolding search_upstream_packages_def by (simp add: Let_def split: option.splits)
  qed
  then show ?thesis using emit_spec by (simp add: lim)
qed

theorem search_capped_witness:
  "length (fst (search_upstream_packages example_env example_cfg example_clock example_fs ''debian'' ''hello'')) \<le> 20
   \<and> length ([] :: hit list) < 20
   \<and> emit [] 0 (replicate 25 example_hit) = (replicate 20 example_hit, 20, True)"
proof -
  have a: "length (fst (search_upstream_packages example_env example_cfg example_clock example_fs ''debian'' ''hello'')) \<le> 20"
    and b: "\<forall>results ms. length results < 20 \<longrightarrow>
         emit results (length results) ms
           = (results @ take (20 - length results) ms,
              min 20 (length results + length ms),
              20 \<le> length results + length ms)"
    using search_capped [of example_env example_cfg example_clock example_fs "''debian''" "''hello''"] by blast+
  from b have "length ([] :: hit list) < 20 \<longrightarrow>
         emit [] (length ([] :: hit list)) (replicate 25 example_hit)
           = ([] @ take (20 - length ([] :: hit list)) (replicate 25 example_hit),
              min 20 (length ([] :: hit list) + length (replicate 25 example_hit)),
              20 \<le> length ([] :: hit list) + length (replicate 25 example_hit))"
    by blast
  then have "emit [] 0 (replicate 25 example_hit) = (replicate 20 example_hit, 20, True)"
    by (simp del: emit.simps)
  with a show ?thesis by simp
qed

end
